theory Spec2Isabelle
  imports Main "HOL-Library.Char_ord" "HOL-Library.List_Lexorder"
begin

section \<open>The registry client of \<^verbatim>\<open>action/tfapi.go\<close>\<close>

text \<open>
  Go strings and byte slices are sequences of bytes: \<^typ>\<open>string\<close>. Go's \<^verbatim>\<open>int\<close> (status
  codes) is \<^typ>\<open>int\<close>. Pointers are addresses into explicit heaps, one per pointee type.
\<close>

subsection \<open>Constants of the file\<close>

definition headerAccept :: string where
  "headerAccept = ''Accept''"

definition headerAuthorization :: string where
  "headerAuthorization = ''Authorization''"

definition headerContentDisposition :: string where
  "headerContentDisposition = ''Content-Disposition''"

definition headerContentType :: string where
  "headerContentType = ''Content-Type''"

definition applicationVNDAPIJSON :: string where
  "applicationVNDAPIJSON = ''application/vnd.api+json''"

definition applicationJSON :: string where
  "applicationJSON = ''application/json''"

definition binaryOctetStream :: string where
  "binaryOctetStream = ''binary/octet-stream''"

definition pathAPI :: string where
  "pathAPI = ''api''"

definition pathOrganizations :: string where
  "pathOrganizations = ''organizations''"

definition pathPlatforms :: string where
  "pathPlatforms = ''platforms''"

definition pathRegistryProviders :: string where
  "pathRegistryProviders = ''registry-providers''"

definition pathVersions :: string where
  "pathVersions = ''versions''"

definition pathV2 :: string where
  "pathV2 = ''v2''"

definition http_MethodPost :: string where
  "http_MethodPost = ''POST''"

definition http_MethodPut :: string where
  "http_MethodPut = ''PUT''"

definition http_StatusOK :: int where
  "http_StatusOK = 200"

definition http_StatusCreated :: int where
  "http_StatusCreated = 201"

subsection \<open>Bytes and character classes of the Go standard library\<close>

definition byte :: "char \<Rightarrow> nat" where
  "byte c = of_char c"

definition isDigit :: "char \<Rightarrow> bool" where
  "isDigit c = (48 \<le> byte c \<and> byte c \<le> 57)"

definition isUpper :: "char \<Rightarrow> bool" where
  "isUpper c = (65 \<le> byte c \<and> byte c \<le> 90)"

definition isLower :: "char \<Rightarrow> bool" where
  "isLower c = (97 \<le> byte c \<and> byte c \<le> 122)"

definition isAlnum :: "char \<Rightarrow> bool" where
  "isAlnum c = (isDigit c \<or> isUpper c \<or> isLower c)"

text \<open>\<^verbatim>\<open>httpguts.IsTokenRune\<close>: the bytes of an HTTP token (method names, header keys).\<close>

definition isTokenByte :: "char \<Rightarrow> bool" where
  "isTokenByte c = (isAlnum c \<or> c \<in> set ''!#$%&*+-.^_`|~'' \<or> byte c = 39)"

definition hexDigit :: "string \<Rightarrow> nat \<Rightarrow> char" where
  "hexDigit digits n = digits ! (n mod 16)"

definition upperhex :: string where
  "upperhex = ''0123456789ABCDEF''"

definition lowerhex :: string where
  "lowerhex = ''0123456789abcdef''"

text \<open>Two hexadecimal digits of a byte, high nibble first.\<close>

definition hex2 :: "string \<Rightarrow> char \<Rightarrow> string" where
  "hex2 digits c = [hexDigit digits (byte c div 16), hexDigit digits (byte c)]"

subsection \<open>\<^verbatim>\<open>strings.Trim\<close>\<close>

text \<open>
  \<^verbatim>\<open>strings.Trim(s, cutset)\<close> removes every leading and every trailing byte of \<open>s\<close> that
  is in \<open>cutset\<close> (for a cutset of ASCII bytes, as \<^verbatim>\<open>"/"\<close> is).
\<close>

definition strings_TrimLeft :: "string \<Rightarrow> string \<Rightarrow> string" where
  "strings_TrimLeft s cutset = dropWhile (\<lambda>c. c \<in> set cutset) s"

definition strings_TrimRight :: "string \<Rightarrow> string \<Rightarrow> string" where
  "strings_TrimRight s cutset = rev (dropWhile (\<lambda>c. c \<in> set cutset) (rev s))"

definition strings_Trim :: "string \<Rightarrow> string \<Rightarrow> string" where
  "strings_Trim s cutset = strings_TrimRight (strings_TrimLeft s cutset) cutset"

subsection \<open>\<^verbatim>\<open>url.Values\<close> and its \<^verbatim>\<open>Encode\<close>\<close>

text \<open>
  \<^verbatim>\<open>url.Values\<close> is \<^verbatim>\<open>map[string][]string\<close>: an association list, read by \<^const>\<open>map_of\<close>
  (the first entry of a key is the one the map holds). \<^verbatim>\<open>len\<close> counts the keys, and a nil
  map has none.
\<close>

type_synonym url_Values = "(string \<times> string list) list"

definition Values_keys :: "url_Values \<Rightarrow> string list" where
  "Values_keys q = sort (remdups (map fst q))"

definition len_Values :: "url_Values \<Rightarrow> nat" where
  "len_Values q = length (remdups (map fst q))"

text \<open>
  \<^verbatim>\<open>url.QueryEscape\<close>: letters, digits and \<^verbatim>\<open>-_.~\<close> stay, a space becomes \<^verbatim>\<open>+\<close>, every other
  byte becomes \<^verbatim>\<open>%XX\<close> in upper-case hexadecimal.
\<close>

definition shouldEscape :: "char \<Rightarrow> bool" where
  "shouldEscape c = (\<not> (isAlnum c \<or> c \<in> set ''-_.~''))"

definition escapeByte :: "char \<Rightarrow> string" where
  "escapeByte c =
     (if shouldEscape c then (if c = CHR '' '' then ''+'' else CHR ''%'' # hex2 upperhex c)
      else [c])"

definition url_QueryEscape :: "string \<Rightarrow> string" where
  "url_QueryEscape s = concat (map escapeByte s)"

text \<open>
  \<^verbatim>\<open>Values.Encode\<close>: the keys in sorted order, every value of a key as \<^verbatim>\<open>key=value\<close>, the
  pairs joined by \<^verbatim>\<open>&\<close>.
\<close>

fun joinWith :: "string \<Rightarrow> string list \<Rightarrow> string" where
  "joinWith sep [] = []"
| "joinWith sep [x] = x"
| "joinWith sep (x # y # ys) = x @ sep @ joinWith sep (y # ys)"

definition encodePairs :: "url_Values \<Rightarrow> string \<Rightarrow> string list" where
  "encodePairs q k =
     map (\<lambda>v. url_QueryEscape k @ ''='' @ url_QueryEscape v) (case map_of q k of None \<Rightarrow> [] | Some vs \<Rightarrow> vs)"

definition Values_Encode :: "url_Values \<Rightarrow> string" where
  "Values_Encode q = joinWith ''&'' (concat (map (encodePairs q) (Values_keys q)))"

subsection \<open>\<^verbatim>\<open>strconv.Quote\<close>, the verb \<^verbatim>\<open>%q\<close> of \<^verbatim>\<open>fmt.Sprintf\<close>\<close>

text \<open>
  An ASCII byte is written as \<^verbatim>\<open>strconv.Quote\<close> writes it: the quote and the backslash
  behind a backslash, a printable byte as it is, a control byte as its escape.
\<close>

definition quoteASCII :: "char \<Rightarrow> string" where
  "quoteASCII c =
     (if c = CHR 0x22 \<or> c = CHR 0x5C then [CHR 0x5C, c]
      else if 32 \<le> byte c \<and> byte c < 127 then [c]
      else if byte c = 7 then [CHR 0x5C, CHR ''a'']
      else if byte c = 8 then [CHR 0x5C, CHR ''b'']
      else if byte c = 12 then [CHR 0x5C, CHR ''f'']
      else if byte c = 10 then [CHR 0x5C, CHR ''n'']
      else if byte c = 13 then [CHR 0x5C, CHR ''r'']
      else if byte c = 9 then [CHR 0x5C, CHR ''t'']
      else if byte c = 11 then [CHR 0x5C, CHR ''v'']
      else [CHR 0x5C, CHR ''x''] @ hex2 lowerhex c)"

text \<open>
  A byte from \<open>0x80\<close> on starts a multi-byte rune, whose rendering depends on UTF-8
  decoding and on the Unicode tables of \<^verbatim>\<open>unicode.IsPrint\<close>: the parameter \<open>mb\<close> gives, for
  the rest of the input, the text written and the number of bytes consumed (at least one).
\<close>

function quoteBytes :: "(string \<Rightarrow> string \<times> nat) \<Rightarrow> string \<Rightarrow> string" where
  "quoteBytes mb [] = []"
| "quoteBytes mb (c # cs) =
     (if byte c < 128 then quoteASCII c @ quoteBytes mb cs
      else fst (mb (c # cs)) @ quoteBytes mb (drop (snd (mb (c # cs)) - 1) cs))"
  by pat_completeness auto
termination
  by (relation "measure (\<lambda>(mb, s). length s)") auto

definition strconv_Quote :: "(string \<Rightarrow> string \<times> nat) \<Rightarrow> string \<Rightarrow> string" where
  "strconv_Quote mb s = [CHR 0x22] @ quoteBytes mb s @ [CHR 0x22]"

subsection \<open>\<^verbatim>\<open>http.Header\<close>\<close>

text \<open>
  \<^verbatim>\<open>http.Header\<close> is \<^verbatim>\<open>map[string][]string\<close>. \<^verbatim>\<open>Header.Set\<close> replaces the values of the
  canonical form of the key by the one value. \<^verbatim>\<open>textproto.CanonicalMIMEHeaderKey\<close> turns
  the first letter and every letter after a hyphen to upper case and the others to lower
  case, and leaves a key with a byte outside the token bytes as it is.
\<close>

type_synonym http_Header = "string \<rightharpoonup> string list"

fun canonLoop :: "bool \<Rightarrow> string \<Rightarrow> string" where
  "canonLoop upper [] = []"
| "canonLoop upper (c # cs) =
     (if upper \<and> isLower c then char_of (byte c - 32) # canonLoop False cs
      else if \<not> upper \<and> isUpper c then char_of (byte c + 32) # canonLoop False cs
      else c # canonLoop (c = CHR ''-'') cs)"

definition CanonicalMIMEHeaderKey :: "string \<Rightarrow> string" where
  "CanonicalMIMEHeaderKey s = (if list_all isTokenByte s then canonLoop True s else s)"

definition Header_Set :: "http_Header \<Rightarrow> string \<Rightarrow> string \<Rightarrow> http_Header" where
  "Header_Set h key val = h(CanonicalMIMEHeaderKey key \<mapsto> [val])"

subsection \<open>Requests, responses and errors\<close>

text \<open>
  A \<^verbatim>\<open>context.Context\<close> is an interface value: nil, or some context (whose cancellation
  shows as an error of the transport).
\<close>

datatype context_Context = NilContext | SomeContext nat

text \<open>
  \<^verbatim>\<open>http.Request\<close>: the method, the URL as the string handed to
  \<^verbatim>\<open>http.NewRequestWithContext\<close> (which parses it), the header, the bytes of the body
  reader (\<open>None\<close>: no body) and the context the request carries.
\<close>

record request =
  Method :: string
  URL :: string
  Header :: http_Header
  Body :: "string option"
  Ctx :: context_Context

text \<open>
  The body of a response is a stream that is read and closed: the bytes not yet read and
  the number of calls of \<^verbatim>\<open>Close\<close>.
\<close>

record body_stream =
  unread :: string
  closes :: nat

record response =
  StatusCode :: int
  RespBody :: body_stream

text \<open>
  The errors of the file and of the library calls it makes, as values. \<open>Panic\<close> is the
  run-time panic of a nil pointer dereference.
\<close>

datatype 'e error =
    ErrMarshalling string
  | ErrInvalidMethod string
  | ErrNilContext
  | ErrURLParse string
  | ErrTransport string string string
  | ErrAPI int 'e
  | ErrStatusMismatch int string string
  | ErrDecode string
  | Panic

text \<open>
  The \<^verbatim>\<open>body interface{}\<close> of \<^verbatim>\<open>buildRequest\<close> by its dynamic type, as the type switch
  reads it: an \<^verbatim>\<open>io.Reader\<close> (with the bytes it yields), a \<^verbatim>\<open>[]byte\<close>, or any other
  value. The nil interface is \<open>None\<close>.
\<close>

datatype 'v body = IoReader string | ByteSlice string | Other 'v

subsection \<open>What the program takes from outside\<close>

text \<open>
  The library calls whose results depend on types and tables outside this file, and the
  remote end, are parameters:
  \<^item> \<open>json_Marshal\<close>: \<^verbatim>\<open>json.Marshal\<close> on a value, its bytes or its error;
  \<^item> \<open>url_Parse_err\<close>: the error of \<^verbatim>\<open>url.Parse\<close> on a URL string, if any;
  \<^item> \<open>quote_multibyte\<close>: \<^verbatim>\<open>strconv.Quote\<close> on a rune outside ASCII;
  \<^item> \<open>json_Valid\<close>, \<open>json_Decode_errors\<close>, \<open>json_Decode_out\<close>: JSON decoding of a
    response body, into the API's error document and into the result type;
  \<^item> \<open>zero_out\<close>: the zero value of the result type;
  \<^item> \<open>roundTrip\<close>: what \<^verbatim>\<open>http.Client.Do\<close> returns for a request sent through the client
    at an address, after the requests sent before: a response, an error, or both.
\<close>

record ('v, 'o, 'e) golib =
  json_Marshal :: "'v \<Rightarrow> string + string"
  url_Parse_err :: "string \<Rightarrow> string option"
  quote_multibyte :: "string \<Rightarrow> string \<times> nat"
  json_Valid :: "string \<Rightarrow> bool"
  json_Decode_errors :: "string \<Rightarrow> 'e option"
  json_Decode_out :: "string \<Rightarrow> 'o \<Rightarrow> string + 'o"
  zero_out :: "'o"
  roundTrip :: "(nat \<times> request) list \<Rightarrow> nat \<Rightarrow> request \<Rightarrow> response option \<times> string option"

subsection \<open>\<^verbatim>\<open>http.NewRequestWithContext\<close>\<close>

definition validMethod :: "string \<Rightarrow> bool" where
  "validMethod method = (method \<noteq> [] \<and> list_all isTokenByte method)"

definition http_NewRequestWithContext ::
  "('v, 'o, 'e) golib \<Rightarrow> context_Context \<Rightarrow> string \<Rightarrow> string \<Rightarrow> string option \<Rightarrow> 'e error + request" where
  "http_NewRequestWithContext lib ctx method url bodyRdr =
     (let method' = (if method = [] then ''GET'' else method) in
      if \<not> validMethod method' then Inl (ErrInvalidMethod method')
      else if ctx = NilContext then Inl ErrNilContext
      else (case url_Parse_err lib url of
              Some e \<Rightarrow> Inl (ErrURLParse e)
            | None \<Rightarrow> Inr \<lparr>Method = method', URL = url, Header = Map.empty, Body = bodyRdr, Ctx = ctx\<rparr>))"

subsection \<open>The middleware\<close>

text \<open>\<^verbatim>\<open>hc\<close> is a \<^verbatim>\<open>*http.Client\<close>: an address in the heap of clients.\<close>

record tfClientMiddleware =
  addr :: string
  bearerToken :: string
  hc :: nat

definition buildURL :: "tfClientMiddleware \<Rightarrow> string \<Rightarrow> string" where
  "buildURL tm route = addr tm @ ''/'' @ route"

text \<open>
  The body reader of \<^verbatim>\<open>buildRequest\<close>: the type switch, with the error of \<^verbatim>\<open>json.Marshal\<close>
  wrapped by \<^verbatim>\<open>fmt.Errorf("error marshalling body: %w", err)\<close>.
\<close>

definition bodyReader :: "('v, 'o, 'e) golib \<Rightarrow> 'v body option \<Rightarrow> 'e error + string option" where
  "bodyReader lib body =
     (case body of
        None \<Rightarrow> Inr None
      | Some (IoReader bs) \<Rightarrow> Inr (Some bs)
      | Some (ByteSlice bs) \<Rightarrow> Inr (Some bs)
      | Some (Other v) \<Rightarrow>
          (case json_Marshal lib v of
             Inl err \<Rightarrow> Inl (ErrMarshalling err)
           | Inr b \<Rightarrow> Inr (Some b)))"

definition compileURL :: "tfClientMiddleware \<Rightarrow> string \<Rightarrow> url_Values \<Rightarrow> string" where
  "compileURL tm routePath query =
     (if len_Values query > 0 then buildURL tm routePath @ ''?'' @ Values_Encode query
      else buildURL tm routePath)"

definition buildRequest ::
  "('v, 'o, 'e) golib \<Rightarrow> tfClientMiddleware \<Rightarrow> context_Context \<Rightarrow> string \<Rightarrow> string \<Rightarrow> url_Values \<Rightarrow>
     'v body option \<Rightarrow> 'e error + request" where
  "buildRequest lib tm ctx method routePath query body =
     (case bodyReader lib body of
        Inl e \<Rightarrow> Inl e
      | Inr bodyRdr \<Rightarrow>
          http_NewRequestWithContext lib ctx method (compileURL tm routePath query) bodyRdr)"

subsection \<open>The heaps and the wire\<close>

text \<open>
  \<^verbatim>\<open>cleanhttp.DefaultClient()\<close> returns a pointer to a new \<^verbatim>\<open>http.Client\<close> whose transport
  is a new \<^verbatim>\<open>http.Transport\<close> with the defaults of the \<^verbatim>\<open>cleanhttp\<close> library. A transport
  configured in any other way is a \<open>CustomTransport\<close>.
\<close>

datatype http_Transport = CleanhttpDefaultTransport | CustomTransport nat

record http_Client =
  Transport :: nat

text \<open>
  The state: one heap per pointee type (an address is an index, allocation appends, so
  that a new address is the length of the heap), and the wire: every request handed to
  \<^verbatim>\<open>http.Client.Do\<close>, with the address of the client, oldest first.
\<close>

record state =
  mw_heap :: "tfClientMiddleware list"
  hc_heap :: "http_Client list"
  tr_heap :: "http_Transport list"
  wire :: "(nat \<times> request) list"

definition deref :: "'a list \<Rightarrow> nat \<Rightarrow> 'a option" where
  "deref heap p = (if p < length heap then Some (heap ! p) else None)"

definition cleanhttp_DefaultClient :: "state \<Rightarrow> state \<times> nat" where
  "cleanhttp_DefaultClient st =
     (st\<lparr>tr_heap := tr_heap st @ [CleanhttpDefaultTransport],
         hc_heap := hc_heap st @ [\<lparr>Transport = length (tr_heap st)\<rparr>]\<rparr>,
      length (hc_heap st))"

text \<open>\<^verbatim>\<open>new(tfClientMiddleware)\<close>: a new cell holding the zero value.\<close>

definition new_tfClientMiddleware :: "state \<Rightarrow> state \<times> nat" where
  "new_tfClientMiddleware st =
     (st\<lparr>mw_heap := mw_heap st @ [\<lparr>addr = [], bearerToken = [], hc = 0\<rparr>]\<rparr>,
      length (mw_heap st))"

definition mw_store :: "state \<Rightarrow> nat \<Rightarrow> tfClientMiddleware \<Rightarrow> state" where
  "mw_store st p v = st\<lparr>mw_heap := (mw_heap st)[p := v]\<rparr>"

text \<open>
  Modelled from the spec: the type \<^verbatim>\<open>Config\<close> is declared outside this file; the two fields
  the file reads are the registry base address and the bearer token. The constructor
  writes the three fields of the new cell one after the other, as the source does; the cell
  it reads back is the one it has just allocated.
\<close>

record Config =
  TFAddress :: string
  TFToken :: string

definition newTFClientMiddleware :: "state \<Rightarrow> Config \<Rightarrow> state \<times> nat" where
  "newTFClientMiddleware st cfg =
     (let (st1, tm) = new_tfClientMiddleware st;
          st2 = mw_store st1 tm ((mw_heap st1 ! tm)\<lparr>addr := strings_Trim (TFAddress cfg) ''/''\<rparr>);
          st3 = mw_store st2 tm ((mw_heap st2 ! tm)\<lparr>bearerToken := TFToken cfg\<rparr>);
          (st4, c) = cleanhttp_DefaultClient st3;
          st5 = mw_store st4 tm ((mw_heap st4 ! tm)\<lparr>hc := c\<rparr>)
      in (st5, tm))"

text \<open>
  \<^verbatim>\<open>copy\<close>: a new cell, the whole of \<^verbatim>\<open>*tm\<close> assigned to it, then its client overridden.
  Reading \<^verbatim>\<open>*tm\<close> through an address that holds no middleware panics: \<^verbatim>\<open>tm\<close> is an
  address of the heap as it was before the new cell, which no pointer of the caller can
  name.
\<close>

definition copy :: "state \<Rightarrow> nat \<Rightarrow> nat \<Rightarrow> state \<times> nat option" where
  "copy st tm c =
     (let (st1, tm2) = new_tfClientMiddleware st in
      case deref (mw_heap st) tm of
        None \<Rightarrow> (st1, None)
      | Some v \<Rightarrow>
          (let st2 = mw_store st1 tm2 v;
               st3 = mw_store st2 tm2 ((mw_heap st2 ! tm2)\<lparr>hc := c\<rparr>)
           in (st3, Some tm2)))"

text \<open>\<^verbatim>\<open>do\<close>: the request goes on the wire through the client of the middleware.\<close>

definition do_request ::
  "('v, 'o, 'e) golib \<Rightarrow> state \<Rightarrow> tfClientMiddleware \<Rightarrow> request \<Rightarrow>
     state \<times> response option \<times> string option" where
  "do_request lib st tm r =
     (st\<lparr>wire := wire st @ [(hc tm, r)]\<rparr>, roundTrip lib (wire st) (hc tm) r)"

subsection \<open>The clients\<close>

text \<open>
  Each of the three client types has the one field \<^verbatim>\<open>m\<close>, the address of its middleware.
  \<^verbatim>\<open>newTFClientMiddleware\<close> and \<^verbatim>\<open>NewTFClient\<close> return a nil error on every path, so the
  model returns the client alone. \<^verbatim>\<open>UploadsClient\<close> returns \<open>None\<close> where \<^verbatim>\<open>copy\<close> panics.
\<close>

datatype TFClient = TFClient nat

datatype TFProviderClient = TFProviderClient nat

datatype TFUploadsClient = TFUploadsClient nat

definition NewTFClient :: "state \<Rightarrow> Config \<Rightarrow> state \<times> TFClient" where
  "NewTFClient st cfg = (let (st1, tm) = newTFClientMiddleware st cfg in (st1, TFClient tm))"

fun ProviderClient :: "TFClient \<Rightarrow> TFProviderClient" where
  "ProviderClient (TFClient tm) = TFProviderClient tm"

fun UploadsClient :: "state \<Rightarrow> TFClient \<Rightarrow> state \<times> TFUploadsClient option" where
  "UploadsClient st (TFClient tm) =
     (let (st1, c) = cleanhttp_DefaultClient st;
          (st2, tm2) = copy st1 tm c
      in (st2, map_option TFUploadsClient tm2))"

subsection \<open>Helpers declared outside this file\<close>

text \<open>
  Modelled from the spec: \<^verbatim>\<open>buildRoute\<close> is not in this file. The spec: route paths are
  built by joining literal path segments with \<^verbatim>\<open>/\<close> in a fixed order, and the segments are
  not escaped beyond simple joining.
\<close>

definition buildRoute :: "string list \<Rightarrow> string" where
  "buildRoute segments = joinWith ''/'' segments"

text \<open>
  Modelled from the spec: \<^verbatim>\<open>setBearerToken\<close> is not in this file. The spec: the header
  \<^verbatim>\<open>Authorization: Bearer <token>\<close> on the requests of the metadata client.
\<close>

definition setBearerToken :: "request \<Rightarrow> string \<Rightarrow> request" where
  "setBearerToken req token =
     req\<lparr>Header := Header_Set (Header req) headerAuthorization (''Bearer '' @ token)\<rparr>"

text \<open>
  Modelled from the spec: the two steps of \<^verbatim>\<open>handleResponse\<close> (not in this file) on the body
  of a response, reading it to its end and closing it.
\<close>

definition readAll :: "body_stream \<Rightarrow> string \<times> body_stream" where
  "readAll b = (unread b, b\<lparr>unread := []\<rparr>)"

definition closeBody :: "body_stream \<Rightarrow> body_stream" where
  "closeBody b = b\<lparr>closes := Suc (closes b)\<rparr>"

definition drainAndClose :: "response \<Rightarrow> response" where
  "drainAndClose resp = resp\<lparr>RespBody := closeBody (snd (readAll (RespBody resp)))\<rparr>"

text \<open>
  Modelled from the spec: the decoding step of \<^verbatim>\<open>handleResponse\<close> (not in this file) on a
  status mismatch. Decoding a body as the API's JSON error document fails on an empty body
  and on bytes that are not valid JSON.
\<close>

definition decodeAPIError :: "('v, 'o, 'e) golib \<Rightarrow> string \<Rightarrow> 'e option" where
  "decodeAPIError lib bs =
     (if bs = [] then None
      else if \<not> json_Valid lib bs then None
      else json_Decode_errors lib bs)"

text \<open>
  Modelled from the spec: \<^verbatim>\<open>handleResponse\<close> is not in this file. The spec, section 4.3:
  \<^item> a transport-level error is wrapped with the request's method and URL and returned
    immediately, with no further processing of a (possibly absent) response;
  \<^item> the response body is fully read and closed before returning, on every other exit
    path;
  \<^item> a status code other than the expected one: the body is decoded as the API's JSON
    error document; a structured API error with the status and the decoded details if
    that succeeds, a generic status-mismatch error with the status, the method and the
    URL if not;
  \<^item> the expected status and a non-nil out pointer: the body is decoded into the value
    pointed to, and a decode failure is returned as it is;
  \<^item> a nil out pointer: no decoding.
  The result is the error (\<open>None\<close>: nil), the response as the call leaves it and the value
  behind the out pointer (\<open>None\<close>: a nil pointer). The spec does not say what happens
  with neither an error nor a response; dereferencing the absent response panics.
\<close>

definition respond ::
  "('v, 'o, 'e) golib \<Rightarrow> request \<Rightarrow> response \<Rightarrow> 'o option \<Rightarrow> int \<Rightarrow>
     'e error option \<times> response \<times> 'o option" where
  "respond lib req resp out expectedStatus =
     (if StatusCode resp \<noteq> expectedStatus then
        (let (bs, b1) = readAll (RespBody resp) in
         case decodeAPIError lib bs of
           Some details \<Rightarrow> (Some (ErrAPI (StatusCode resp) details), resp\<lparr>RespBody := b1\<rparr>, out)
         | None \<Rightarrow>
             (Some (ErrStatusMismatch (StatusCode resp) (Method req) (URL req)),
              resp\<lparr>RespBody := b1\<rparr>, out))
      else
        (case out of
           None \<Rightarrow> (None, resp, None)
         | Some v \<Rightarrow>
             (let (bs, b1) = readAll (RespBody resp) in
              case json_Decode_out lib bs v of
                Inl err \<Rightarrow> (Some (ErrDecode err), resp\<lparr>RespBody := b1\<rparr>, out)
              | Inr v' \<Rightarrow> (None, resp\<lparr>RespBody := b1\<rparr>, Some v'))))"

text \<open>
  Modelled from the spec: \<^verbatim>\<open>handleResponse\<close> (not in this file) as a whole: the transport
  error first, then the response, which is drained and closed after the branch on the status.
\<close>

definition handleResponse ::
  "('v, 'o, 'e) golib \<Rightarrow> request \<Rightarrow> response option \<Rightarrow> string option \<Rightarrow> 'o option \<Rightarrow> int \<Rightarrow>
     'e error option \<times> response option \<times> 'o option" where
  "handleResponse lib req resp err out expectedStatus =
     (case err of
        Some e \<Rightarrow> (Some (ErrTransport (Method req) (URL req) e), resp, out)
      | None \<Rightarrow>
          (case resp of
             None \<Rightarrow> (Some Panic, None, out)
           | Some r \<Rightarrow>
               (let (e, r1, out') = respond lib req r out expectedStatus
                in (e, Some (drainAndClose r1), out'))))"

subsection \<open>The operations\<close>

text \<open>
  Modelled from the spec: the request and response types are declared outside this file.
  The payloads of the two create operations are plain data records (values that are
  neither an \<^verbatim>\<open>io.Reader\<close> nor a \<^verbatim>\<open>[]byte\<close>), the results are the type \<open>'o\<close>, and an upload
  request has a destination, the file content (any value), a content type and a
  filename.
\<close>

record 'v TFFileUploadRequest =
  Destination :: string
  File :: "'v body option"
  ContentType :: string
  Filename :: string

text \<open>
  The operations read the middleware behind \<^verbatim>\<open>tc.m\<close>. With no middleware there (a nil
  pointer), \<^verbatim>\<open>buildRequest\<close> still runs its switch on the body first and returns the
  marshalling error if there is one; it panics only when \<^verbatim>\<open>buildURL\<close> reads the address.
\<close>

text \<open>
  The local \<^verbatim>\<open>route\<close> of \<^verbatim>\<open>CreateProviderVersion\<close> and of \<^verbatim>\<open>CreateProviderVersionPlatform\<close>:
  the segments in the order of the two calls of \<^verbatim>\<open>buildRoute\<close>.
\<close>

definition versionsRoute :: "string \<Rightarrow> string \<Rightarrow> string \<Rightarrow> string \<Rightarrow> string" where
  "versionsRoute orgName regName namespace provName =
     buildRoute [pathAPI, pathV2, pathOrganizations, orgName, pathRegistryProviders, regName,
                 namespace, provName, pathVersions]"

definition platformsRoute :: "string \<Rightarrow> string \<Rightarrow> string \<Rightarrow> string \<Rightarrow> string \<Rightarrow> string" where
  "platformsRoute orgName regName namespace provName provVersion =
     buildRoute [pathAPI, pathV2, pathOrganizations, orgName, pathRegistryProviders, regName,
                 namespace, provName, pathVersions, provVersion, pathPlatforms]"

fun CreateProviderVersion ::
  "('v, 'o, 'e) golib \<Rightarrow> state \<Rightarrow> TFProviderClient \<Rightarrow> context_Context \<Rightarrow> string \<Rightarrow> string \<Rightarrow> string \<Rightarrow>
     string \<Rightarrow> 'v \<Rightarrow> state \<times> ('e error + 'o)" where
  "CreateProviderVersion lib st (TFProviderClient m) ctx orgName regName namespace provName data =
     (let route = versionsRoute orgName regName namespace provName in
      case deref (mw_heap st) m of
        None \<Rightarrow>
          (case bodyReader lib (Some (Other data)) of
             Inl err \<Rightarrow> (st, Inl err)
           | Inr bodyRdr \<Rightarrow> (st, Inl Panic))
      | Some tm \<Rightarrow>
          (case buildRequest lib tm ctx http_MethodPost route [] (Some (Other data)) of
             Inl err \<Rightarrow> (st, Inl err)
           | Inr req0 \<Rightarrow>
               (let req1 = setBearerToken req0 (bearerToken tm);
                    req2 = req1\<lparr>Header := Header_Set (Header req1) headerContentType applicationVNDAPIJSON\<rparr>;
                    req = req2\<lparr>Header := Header_Set (Header req2) headerAccept applicationJSON\<rparr>;
                    (st1, resp, err) = do_request lib st tm req;
                    (herr, resp', out) =
                       handleResponse lib req resp err (Some (zero_out lib)) http_StatusCreated
                in case herr of
                     Some e \<Rightarrow> (st1, Inl e)
                   | None \<Rightarrow> (st1, Inr (case out of Some v \<Rightarrow> v | None \<Rightarrow> zero_out lib)))))"

fun CreateProviderVersionPlatform ::
  "('v, 'o, 'e) golib \<Rightarrow> state \<Rightarrow> TFProviderClient \<Rightarrow> context_Context \<Rightarrow> string \<Rightarrow> string \<Rightarrow> string \<Rightarrow>
     string \<Rightarrow> string \<Rightarrow> 'v \<Rightarrow> state \<times> ('e error + 'o)" where
  "CreateProviderVersionPlatform lib st (TFProviderClient m) ctx orgName regName namespace provName
       provVersion data =
     (let route = platformsRoute orgName regName namespace provName provVersion in
      case deref (mw_heap st) m of
        None \<Rightarrow>
          (case bodyReader lib (Some (Other data)) of
             Inl err \<Rightarrow> (st, Inl err)
           | Inr bodyRdr \<Rightarrow> (st, Inl Panic))
      | Some tm \<Rightarrow>
          (case buildRequest lib tm ctx http_MethodPost route [] (Some (Other data)) of
             Inl err \<Rightarrow> (st, Inl err)
           | Inr req0 \<Rightarrow>
               (let req1 = setBearerToken req0 (bearerToken tm);
                    req2 = req1\<lparr>Header := Header_Set (Header req1) headerContentType applicationVNDAPIJSON\<rparr>;
                    req = req2\<lparr>Header := Header_Set (Header req2) headerAccept applicationJSON\<rparr>;
                    (st1, resp, err) = do_request lib st tm req;
                    (herr, resp', out) =
                       handleResponse lib req resp err (Some (zero_out lib)) http_StatusCreated
                in case herr of
                     Some e \<Rightarrow> (st1, Inl e)
                   | None \<Rightarrow> (st1, Inr (case out of Some v \<Rightarrow> v | None \<Rightarrow> zero_out lib)))))"

text \<open>
  The constant \<^verbatim>\<open>attachmentFilenameFmt\<close>, \<^verbatim>\<open>attachment; filename=%q\<close>, as \<^verbatim>\<open>fmt.Sprintf\<close> applies
  it to a filename.
\<close>

definition attachmentFilenameFmt :: "('v, 'o, 'e) golib \<Rightarrow> string \<Rightarrow> string" where
  "attachmentFilenameFmt lib filename =
     ''attachment; filename='' @ strconv_Quote (quote_multibyte lib) filename"

fun UploadFile ::
  "('v, 'o, 'e) golib \<Rightarrow> state \<Rightarrow> TFUploadsClient \<Rightarrow> context_Context \<Rightarrow> 'v TFFileUploadRequest \<Rightarrow>
     state \<times> 'e error option" where
  "UploadFile lib st (TFUploadsClient m) ctx data =
     (case deref (mw_heap st) m of
        None \<Rightarrow>
          (case bodyReader lib (File data) of
             Inl err \<Rightarrow> (st, Some err)
           | Inr bodyRdr \<Rightarrow> (st, Some Panic))
      | Some tm \<Rightarrow>
          (case buildRequest lib tm ctx http_MethodPut (Destination data) [] (File data) of
             Inl err \<Rightarrow> (st, Some err)
           | Inr req0 \<Rightarrow>
               (let req1 = req0\<lparr>Header := Header_Set (Header req0) headerContentType (ContentType data)\<rparr>;
                    req = req1\<lparr>Header := Header_Set (Header req1) headerContentDisposition
                                            (attachmentFilenameFmt lib (Filename data))\<rparr>;
                    (st1, resp, err) = do_request lib st tm req;
                    (herr, resp', out) = handleResponse lib req resp err (None :: 'o option) http_StatusOK
                in (st1, herr))))"

subsection \<open>Reading the results\<close>

text \<open>
  The common body of the two create operations, which differ in the route only; the
  proofs go through it.
\<close>

definition postJSON ::
  "('v, 'o, 'e) golib \<Rightarrow> state \<Rightarrow> nat \<Rightarrow> context_Context \<Rightarrow> string \<Rightarrow> 'v \<Rightarrow>
     state \<times> ('e error + 'o)" where
  "postJSON lib st m ctx route data =
     (case deref (mw_heap st) m of
        None \<Rightarrow>
          (case bodyReader lib (Some (Other data)) of
             Inl err \<Rightarrow> (st, Inl err)
           | Inr bodyRdr \<Rightarrow> (st, Inl Panic))
      | Some tm \<Rightarrow>
          (case buildRequest lib tm ctx http_MethodPost route [] (Some (Other data)) of
             Inl err \<Rightarrow> (st, Inl err)
           | Inr req0 \<Rightarrow>
               (let req1 = setBearerToken req0 (bearerToken tm);
                    req2 = req1\<lparr>Header := Header_Set (Header req1) headerContentType applicationVNDAPIJSON\<rparr>;
                    req = req2\<lparr>Header := Header_Set (Header req2) headerAccept applicationJSON\<rparr>;
                    (st1, resp, err) = do_request lib st tm req;
                    (herr, resp', out) =
                       handleResponse lib req resp err (Some (zero_out lib)) http_StatusCreated
                in case herr of
                     Some e \<Rightarrow> (st1, Inl e)
                   | None \<Rightarrow> (st1, Inr (case out of Some v \<Rightarrow> v | None \<Rightarrow> zero_out lib)))))"

text \<open>
  The request as the create operations send it, and as \<^verbatim>\<open>UploadFile\<close> sends it: the built
  request with the headers set in the order of the source.
\<close>

definition createRequest :: "tfClientMiddleware \<Rightarrow> request \<Rightarrow> request" where
  "createRequest tm req0 =
     (let req1 = setBearerToken req0 (bearerToken tm);
          req2 = req1\<lparr>Header := Header_Set (Header req1) headerContentType applicationVNDAPIJSON\<rparr>
      in req2\<lparr>Header := Header_Set (Header req2) headerAccept applicationJSON\<rparr>)"

definition uploadRequest ::
  "('v, 'o, 'e) golib \<Rightarrow> 'v TFFileUploadRequest \<Rightarrow> request \<Rightarrow> request" where
  "uploadRequest lib data req0 =
     (let req1 = req0\<lparr>Header := Header_Set (Header req0) headerContentType (ContentType data)\<rparr>
      in req1\<lparr>Header := Header_Set (Header req1) headerContentDisposition
                          (attachmentFilenameFmt lib (Filename data))\<rparr>)"

text \<open>The requests an operation has put on the wire: those of \<open>st'\<close> that \<open>st\<close> has not.\<close>

definition issued :: "state \<Rightarrow> state \<Rightarrow> (nat \<times> request) list" where
  "issued st st' = drop (length (wire st)) (wire st')"

definition issued_URLs :: "state \<Rightarrow> state \<Rightarrow> string list" where
  "issued_URLs st st' = map (\<lambda>(c, r). URL r) (issued st st')"

definition request_URL :: "'e error + request \<Rightarrow> string option" where
  "request_URL res = (case res of Inl e \<Rightarrow> None | Inr r \<Rightarrow> Some (URL r))"

text \<open>The bytes that need no escape in a query string, and the bytes \<^verbatim>\<open>Encode\<close> writes.\<close>

definition isQueryByte :: "char \<Rightarrow> bool" where
  "isQueryByte c = (isAlnum c \<or> c \<in> set ''-_.~%+&='')"


text \<open>The error and the response among the results of \<^verbatim>\<open>handleResponse\<close>.\<close>

definition result_error :: "'e error option \<times> response option \<times> 'o option \<Rightarrow> 'e error option" where
  "result_error res = fst res"


subsection \<open>A concrete outside, for the examples\<close>

text \<open>
  A library in which a value is a string that marshals to itself (but \<open>''chan''\<close>, which
  has no JSON), a URL with the byte \<open>0x7F\<close> does not parse, a JSON text starts with a
  brace and decodes to itself, and the remote end answers every request with \<open>net\<close>.
\<close>

definition example_lib ::
  "response option \<times> string option \<Rightarrow> (string, string, string) golib" where
  "example_lib net =
     \<lparr>json_Marshal = (\<lambda>v. if v = ''chan'' then Inl ''json: unsupported type: chan int'' else Inr v),
      url_Parse_err =
        (\<lambda>u. if CHR 0x7F \<in> set u then Some ''net/url: invalid control character in URL'' else None),
      quote_multibyte = (\<lambda>s. (''?'', 1)),
      json_Valid = (\<lambda>b. b \<noteq> [] \<and> hd b = CHR ''{''),
      json_Decode_errors = (\<lambda>b. Some b),
      json_Decode_out = (\<lambda>b v. if b \<noteq> [] \<and> hd b = CHR ''{'' then Inr b else Inl ''invalid character''),
      zero_out = [],
      roundTrip = (\<lambda>w c r. net)\<rparr>"

definition answer :: "int \<Rightarrow> string \<Rightarrow> response option \<times> string option" where
  "answer status bs = (Some \<lparr>StatusCode = status, RespBody = \<lparr>unread = bs, closes = 0\<rparr>\<rparr>, None)"

definition no_answer :: "string \<Rightarrow> response option \<times> string option" where
  "no_answer e = (None, Some e)"

definition empty_state :: state where
  "empty_state = \<lparr>mw_heap = [], hc_heap = [], tr_heap = [], wire = []\<rparr>"

definition example_config :: Config where
  "example_config = \<lparr>TFAddress = ''https://app.terraform.io/'', TFToken = ''s3cr3t''\<rparr>"

definition example_state :: state where
  "example_state = fst (NewTFClient empty_state example_config)"

definition example_client :: TFClient where
  "example_client = snd (NewTFClient empty_state example_config)"

definition example_middleware :: tfClientMiddleware where
  "example_middleware = \<lparr>addr = ''https://app.terraform.io'', bearerToken = ''s3cr3t'', hc = 0\<rparr>"

definition example_upload :: "string TFFileUploadRequest" where
  "example_upload =
     \<lparr>Destination = ''https://storage.example/x'', File = Some (ByteSlice ''PK''),
      ContentType = ''application/zip'', Filename = ''tool_1.2.3_linux_amd64.zip''\<rparr>"

definition slash_config :: Config where
  "slash_config = \<lparr>TFAddress = ''//registry.example/'', TFToken = ''s3cr3t''\<rparr>"

definition slash_middleware :: tfClientMiddleware where
  "slash_middleware =
     (case newTFClientMiddleware empty_state slash_config of (st, tm) \<Rightarrow> mw_heap st ! tm)"

definition uploads_state :: state where
  "uploads_state = fst (UploadsClient example_state example_client)"

definition uploads_client :: TFUploadsClient where
  "uploads_client = TFUploadsClient 1"

definition uploads_middleware :: tfClientMiddleware where
  "uploads_middleware = \<lparr>addr = ''https://app.terraform.io'', bearerToken = ''s3cr3t'', hc = 1\<rparr>"


definition example_request :: request where
  "example_request =
     \<lparr>Method = ''POST'', URL = ''https://app.terraform.io/r'', Header = Map.empty, Body = None,
      Ctx = SomeContext 0\<rparr>"

section \<open>Facts about the examples\<close>

lemma example_state_eq:
  "example_state =
     \<lparr>mw_heap = [example_middleware], hc_heap = [\<lparr>Transport = 0\<rparr>],
      tr_heap = [CleanhttpDefaultTransport], wire = []\<rparr>"
  by (simp add: example_state_def NewTFClient_def newTFClientMiddleware_def
      new_tfClientMiddleware_def mw_store_def cleanhttp_DefaultClient_def empty_state_def
      example_config_def example_middleware_def strings_Trim_def strings_TrimLeft_def
      strings_TrimRight_def Let_def)

lemma example_client_eq: "example_client = TFClient 0"
  by (simp add: example_client_def NewTFClient_def newTFClientMiddleware_def
      new_tfClientMiddleware_def mw_store_def cleanhttp_DefaultClient_def empty_state_def Let_def)

section \<open>Strings, queries and the request builder\<close>

lemma TrimLeft_decomp:
  "s = takeWhile (\<lambda>c. c \<in> set cutset) s @ strings_TrimLeft s cutset"
  by (simp add: strings_TrimLeft_def)

lemma TrimRight_decomp:
  "s = strings_TrimRight s cutset @ rev (takeWhile (\<lambda>c. c \<in> set cutset) (rev s))"
proof -
  have "rev (takeWhile (\<lambda>c. c \<in> set cutset) (rev s) @ dropWhile (\<lambda>c. c \<in> set cutset) (rev s))
      = rev (rev s)"
    by (simp only: takeWhile_dropWhile_id)
  then have "rev (dropWhile (\<lambda>c. c \<in> set cutset) (rev s))
      @ rev (takeWhile (\<lambda>c. c \<in> set cutset) (rev s)) = s"
    by (simp only: rev_append rev_rev_ident)
  then show ?thesis by (simp only: strings_TrimRight_def)
qed

lemma Trim_decomp:
  "\<exists>pre suf. s = pre @ strings_Trim s cutset @ suf \<and> set pre \<subseteq> set cutset \<and> set suf \<subseteq> set cutset"
proof -
  let ?pre = "takeWhile (\<lambda>c. c \<in> set cutset) s"
  let ?mid = "strings_TrimLeft s cutset"
  let ?suf = "rev (takeWhile (\<lambda>c. c \<in> set cutset) (rev ?mid))"
  have 1: "s = ?pre @ ?mid" by (rule TrimLeft_decomp)
  have 2: "?mid = strings_Trim s cutset @ ?suf"
    unfolding strings_Trim_def by (rule TrimRight_decomp)
  have 3: "set ?pre \<subseteq> set cutset" by (auto dest: set_takeWhileD)
  have 4: "set ?suf \<subseteq> set cutset" by (auto dest: set_takeWhileD)
  have "s = ?pre @ strings_Trim s cutset @ ?suf" using 1 2 by simp
  then show ?thesis using 3 4 by blast
qed

lemma TrimLeft_hd: "strings_TrimLeft s cutset \<noteq> [] \<Longrightarrow> hd (strings_TrimLeft s cutset) \<notin> set cutset"
  unfolding strings_TrimLeft_def using hd_dropWhile [of "\<lambda>c. c \<in> set cutset" s] by simp

lemma TrimRight_last: "strings_TrimRight s cutset \<noteq> [] \<Longrightarrow> last (strings_TrimRight s cutset) \<notin> set cutset"
  unfolding strings_TrimRight_def
  using hd_dropWhile [of "\<lambda>c. c \<in> set cutset" "rev s"] by (simp add: last_rev)

lemma TrimRight_hd:
  "strings_TrimRight s cutset \<noteq> [] \<Longrightarrow> hd (strings_TrimRight s cutset) = hd s"
proof -
  assume ne: "strings_TrimRight s cutset \<noteq> []"
  have "s = strings_TrimRight s cutset @ rev (takeWhile (\<lambda>c. c \<in> set cutset) (rev s))"
    by (rule TrimRight_decomp)
  then have "hd s = hd (strings_TrimRight s cutset @ rev (takeWhile (\<lambda>c. c \<in> set cutset) (rev s)))"
    by simp
  then show ?thesis using ne by simp
qed

lemma Trim_ends:
  "strings_Trim s cutset \<noteq> [] \<Longrightarrow>
     hd (strings_Trim s cutset) \<notin> set cutset \<and> last (strings_Trim s cutset) \<notin> set cutset"
proof -
  assume ne: "strings_Trim s cutset \<noteq> []"
  then have l: "strings_TrimLeft s cutset \<noteq> []"
    by (auto simp add: strings_Trim_def strings_TrimRight_def)
  have "hd (strings_Trim s cutset) = hd (strings_TrimLeft s cutset)"
    using ne unfolding strings_Trim_def by (rule TrimRight_hd)
  then show ?thesis
    using TrimLeft_hd [OF l] TrimRight_last [of "strings_TrimLeft s cutset" cutset] ne
    by (simp add: strings_Trim_def)
qed

lemma upperhex_alnum: "list_all isAlnum upperhex"
  by (simp add: upperhex_def isAlnum_def isDigit_def isUpper_def isLower_def byte_def)

lemma hexDigit_upper_alnum: "isAlnum (hexDigit upperhex n)"
proof -
  have "n mod 16 < length upperhex" by (simp add: upperhex_def)
  then have "upperhex ! (n mod 16) \<in> set upperhex" by (rule nth_mem)
  then show ?thesis using upperhex_alnum by (simp add: hexDigit_def list_all_iff)
qed

lemma escapeByte_query: "list_all isQueryByte (escapeByte c)"
  using hexDigit_upper_alnum
  by (simp add: escapeByte_def isQueryByte_def hex2_def shouldEscape_def)

lemma QueryEscape_query: "list_all isQueryByte (url_QueryEscape s)"
  by (induction s) (simp_all add: url_QueryEscape_def escapeByte_query)

lemma joinWith_all:
  "list_all P sep \<Longrightarrow> list_all (list_all P) xs \<Longrightarrow> list_all P (joinWith sep xs)"
  by (induction sep xs rule: joinWith.induct) simp_all

lemma encodePairs_query: "list_all (list_all isQueryByte) (encodePairs q k)"
proof -
  have eq: "isQueryByte CHR ''=''"
    by (simp add: isQueryByte_def)
  have "list_all (list_all isQueryByte)
      (map (\<lambda>v. url_QueryEscape k @ ''='' @ url_QueryEscape v) vs)" for vs
    by (induction vs) (simp_all add: QueryEscape_query eq)
  then show ?thesis by (simp only: encodePairs_def)
qed

lemma Values_Encode_query: "list_all isQueryByte (Values_Encode q)"
proof -
  have "list_all (list_all isQueryByte) (concat (map (encodePairs q) ks))" for ks
    by (induction ks) (simp_all add: encodePairs_query)
  then show ?thesis
    unfolding Values_Encode_def by (intro joinWith_all) (simp_all add: isQueryByte_def)
qed

lemma buildRequest_Inr:
  assumes "buildRequest lib tm ctx method route query body = Inr r"
  shows "URL r = compileURL tm route query" "Method r = (if method = [] then ''GET'' else method)"
    "Header r = Map.empty" "bodyReader lib body = Inr (Body r)" "Ctx r = ctx"
  using assms
  by (auto simp add: buildRequest_def http_NewRequestWithContext_def Let_def
      split: sum.splits if_splits option.splits)


lemma canonical_keys:
  "CanonicalMIMEHeaderKey headerAccept = headerAccept"
  "CanonicalMIMEHeaderKey headerAuthorization = headerAuthorization"
  "CanonicalMIMEHeaderKey headerContentDisposition = headerContentDisposition"
  "CanonicalMIMEHeaderKey headerContentType = headerContentType"
  by (simp_all add: CanonicalMIMEHeaderKey_def headerAccept_def headerAuthorization_def
      headerContentDisposition_def headerContentType_def isTokenByte_def isAlnum_def isDigit_def
      isUpper_def isLower_def byte_def)

lemma NewRequest_not_marshalling:
  "http_NewRequestWithContext lib ctx method url b \<noteq> Inl (ErrMarshalling e)"
  by (simp add: http_NewRequestWithContext_def Let_def split: option.splits)

lemma NewRequest_Inr:
  assumes "validMethod (if method = [] then ''GET'' else method)" and "ctx \<noteq> NilContext"
    and "url_Parse_err lib url = None"
  shows "http_NewRequestWithContext lib ctx method url b =
     Inr \<lparr>Method = (if method = [] then ''GET'' else method), URL = url, Header = Map.empty,
          Body = b, Ctx = ctx\<rparr>"
  using assms by (simp add: http_NewRequestWithContext_def Let_def)

lemma UploadFile_failed:
  assumes "deref (mw_heap st) m = Some tm"
    and "buildRequest lib tm ctx http_MethodPut (Destination data) [] (File data) = Inl e"
  shows "UploadFile lib st (TFUploadsClient m) ctx data = (st, Some e)"
  using assms by simp

lemma UploadFile_built:
  assumes "deref (mw_heap st) m = Some tm"
    and "buildRequest lib tm ctx http_MethodPut (Destination data) [] (File data) = Inr req0"
  shows "UploadFile lib st (TFUploadsClient m) ctx data =
     (st\<lparr>wire := wire st @ [(hc tm, uploadRequest lib data req0)]\<rparr>,
      result_error (handleResponse lib (uploadRequest lib data req0)
         (fst (roundTrip lib (wire st) (hc tm) (uploadRequest lib data req0)))
         (snd (roundTrip lib (wire st) (hc tm) (uploadRequest lib data req0)))
         (None :: 'o option) http_StatusOK))"
  using assms
  by (simp add: uploadRequest_def do_request_def result_error_def Let_def split: prod.splits)

lemma postJSON_failed:
  assumes "deref (mw_heap st) m = Some tm"
    and "buildRequest lib tm ctx http_MethodPost route [] (Some (Other data)) = Inl e"
  shows "postJSON lib st m ctx route data = (st, Inl e)"
  using assms by (simp add: postJSON_def)

lemma postJSON_built:
  assumes "deref (mw_heap st) m = Some tm"
    and "buildRequest lib tm ctx http_MethodPost route [] (Some (Other data)) = Inr req0"
  shows "postJSON lib st m ctx route data =
     (st\<lparr>wire := wire st @ [(hc tm, createRequest tm req0)]\<rparr>,
      case handleResponse lib (createRequest tm req0)
             (fst (roundTrip lib (wire st) (hc tm) (createRequest tm req0)))
             (snd (roundTrip lib (wire st) (hc tm) (createRequest tm req0)))
             (Some (zero_out lib)) http_StatusCreated of
        (Some e, resp', out) \<Rightarrow> Inl e
      | (None, resp', out) \<Rightarrow> Inr (case out of Some v \<Rightarrow> v | None \<Rightarrow> zero_out lib))"
  using assms
  by (simp add: postJSON_def createRequest_def do_request_def Let_def split: prod.splits option.splits)

lemma CreateProviderVersion_postJSON:
  "CreateProviderVersion lib st (TFProviderClient m) ctx orgName regName namespace provName data
     = postJSON lib st m ctx (versionsRoute orgName regName namespace provName) data"
  by (simp add: postJSON_def Let_def)

lemma CreateProviderVersionPlatform_postJSON:
  "CreateProviderVersionPlatform lib st (TFProviderClient m) ctx orgName regName namespace provName
      provVersion data
     = postJSON lib st m ctx (platformsRoute orgName regName namespace provName provVersion) data"
  by (simp add: postJSON_def Let_def)

lemma issued_append: "issued st (st\<lparr>wire := wire st @ xs\<rparr>) = xs"
  by (simp add: issued_def)

lemma issued_same: "issued st st = []"
  by (simp add: issued_def)

section \<open>The response handler\<close>

text \<open>
  C7. Whenever a transport-level error is present, \<^verbatim>\<open>handleResponse\<close> returns the error
  that wraps it with the method and the URL of the request, and nothing else happens: the
  response, present or absent, comes back as it went in (nothing read, nothing closed), and
  so does the value behind the out pointer.
\<close>

theorem handleResponse_transport_error:
  "handleResponse lib req resp (Some e) out expectedStatus
     = (Some (ErrTransport (Method req) (URL req) e), resp, out)"
  by (simp add: handleResponse_def)

theorem handleResponse_transport_error_witness:
  "handleResponse (example_lib (no_answer ''dial tcp: no such host'')) example_request None
      (Some ''dial tcp: no such host'') (Some ''zero'') http_StatusCreated
   = (Some (ErrTransport ''POST'' ''https://app.terraform.io/r'' ''dial tcp: no such host''),
      None, Some ''zero'')"
  using handleResponse_transport_error
    [of "example_lib (no_answer ''dial tcp: no such host'')" example_request None
      "''dial tcp: no such host''" "Some ''zero''" http_StatusCreated]
  by (simp add: example_request_def)

text \<open>
  C8. For a response whose status code differs from the expected one (and no transport
  error), \<^verbatim>\<open>handleResponse\<close> returns an error, and which one is decided by the body alone:
  the structured API error with the status and the decoded details when the body decodes
  as the API's error document, the status-mismatch error with the status, the method and
  the URL when it does not, as with an empty body and with a body that is not valid JSON.
  A decode failure is never what is returned.
\<close>

theorem handleResponse_status_mismatch:
  assumes "StatusCode r \<noteq> expectedStatus"
  shows "(\<exists>e. result_error (handleResponse lib req (Some r) None out expectedStatus) = Some e)
    \<and> (\<forall>d. decodeAPIError lib (unread (RespBody r)) = Some d \<longrightarrow>
          result_error (handleResponse lib req (Some r) None out expectedStatus)
            = Some (ErrAPI (StatusCode r) d))
    \<and> (decodeAPIError lib (unread (RespBody r)) = None \<longrightarrow>
          result_error (handleResponse lib req (Some r) None out expectedStatus)
            = Some (ErrStatusMismatch (StatusCode r) (Method req) (URL req)))
    \<and> (unread (RespBody r) = [] \<or> \<not> json_Valid lib (unread (RespBody r)) \<longrightarrow>
          result_error (handleResponse lib req (Some r) None out expectedStatus)
            = Some (ErrStatusMismatch (StatusCode r) (Method req) (URL req)))
    \<and> (\<forall>msg. result_error (handleResponse lib req (Some r) None out expectedStatus)
            \<noteq> Some (ErrDecode msg))"
proof -
  let ?bs = "unread (RespBody r)"
  have shape: "result_error (handleResponse lib req (Some r) None out expectedStatus) =
      Some (case decodeAPIError lib ?bs of
              Some d \<Rightarrow> ErrAPI (StatusCode r) d
            | None \<Rightarrow> ErrStatusMismatch (StatusCode r) (Method req) (URL req))"
    using assms
    by (simp add: handleResponse_def respond_def result_error_def readAll_def Let_def
        split: option.splits)
  have undecodable: "decodeAPIError lib ?bs = None" if "?bs = [] \<or> \<not> json_Valid lib ?bs"
    using that by (auto simp add: decodeAPIError_def)
  show ?thesis
    using undecodable by (auto simp add: shape split: option.splits)
qed

theorem handleResponse_status_mismatch_witness:
  "result_error (handleResponse (example_lib (answer 422 [])) example_request
       (Some \<lparr>StatusCode = 422, RespBody = \<lparr>unread = [], closes = 0\<rparr>\<rparr>) None (Some ''zero'')
       http_StatusCreated)
     = Some (ErrStatusMismatch 422 ''POST'' ''https://app.terraform.io/r'')
   \<and> result_error (handleResponse (example_lib (answer 422 ''{e}'')) example_request
       (Some \<lparr>StatusCode = 422, RespBody = \<lparr>unread = ''{e}'', closes = 0\<rparr>\<rparr>) None (Some ''zero'')
       http_StatusCreated)
     = Some (ErrAPI 422 ''{e}'')"
proof -
  have differs: "StatusCode \<lparr>StatusCode = 422, RespBody = b\<rparr> \<noteq> http_StatusCreated" for b
    by (simp add: http_StatusCreated_def)
  have decoded: "decodeAPIError (example_lib (answer 422 ''{e}'')) ''{e}'' = Some ''{e}''"
    by (simp add: decodeAPIError_def example_lib_def)
  show ?thesis
    using handleResponse_status_mismatch
        [where r = "\<lparr>StatusCode = 422, RespBody = \<lparr>unread = [], closes = 0\<rparr>\<rparr>"
           and expectedStatus = http_StatusCreated and lib = "example_lib (answer 422 [])"
           and req = example_request and out = "Some ''zero''", OF differs]
      handleResponse_status_mismatch
        [where r = "\<lparr>StatusCode = 422, RespBody = \<lparr>unread = ''{e}'', closes = 0\<rparr>\<rparr>"
           and expectedStatus = http_StatusCreated and lib = "example_lib (answer 422 ''{e}'')"
           and req = example_request and out = "Some ''zero''", OF differs]
      decoded
    by (simp add: example_request_def)
qed




section \<open>The heaps\<close>

lemma deref_append_old: "deref heap p = Some v \<Longrightarrow> deref (heap @ xs) p = Some v"
  by (auto simp add: deref_def nth_append split: if_splits)

lemma deref_append_new: "deref (heap @ [x]) (length heap) = Some x"
  by (simp add: deref_def)

lemma deref_valid: "deref heap p = Some v \<Longrightarrow> p < length heap"
  by (auto simp add: deref_def split: if_splits)

lemma UploadsClient_eq:
  assumes "deref (mw_heap st) tm = Some v"
  shows "UploadsClient st (TFClient tm) =
     (st\<lparr>tr_heap := tr_heap st @ [CleanhttpDefaultTransport],
         hc_heap := hc_heap st @ [\<lparr>Transport = length (tr_heap st)\<rparr>],
         mw_heap := mw_heap st @ [v\<lparr>hc := length (hc_heap st)\<rparr>]\<rparr>,
      Some (TFUploadsClient (length (mw_heap st))))"
  using assms deref_valid [OF assms]
  by (simp add: copy_def new_tfClientMiddleware_def cleanhttp_DefaultClient_def mw_store_def
      deref_def nth_append Let_def)

text \<open>
  C10. From a client whose middleware, HTTP client and transport are allocated,
  \<^verbatim>\<open>UploadsClient\<close> returns a client on a new middleware cell that holds the same base
  address and bearer token, and whose HTTP client is new (an address the heap of clients
  did not have), with a new transport of the \<^verbatim>\<open>cleanhttp\<close> defaults: neither is the one of
  the metadata client. The cell of the metadata client, its HTTP client and its transport
  are what they were, as is every other cell of the three heaps, and nothing goes on the
  wire.
\<close>

theorem UploadsClient_fresh_transport:
  assumes mw: "deref (mw_heap st) tm = Some v"
    and cl: "deref (hc_heap st) (hc v) = Some c"
    and tr: "deref (tr_heap st) (Transport c) = Some t"
  shows "\<exists>st' tm2 v2 c2.
      UploadsClient st (TFClient tm) = (st', Some (TFUploadsClient tm2))
    \<and> tm2 \<noteq> tm \<and> deref (mw_heap st) tm2 = None
    \<and> deref (mw_heap st') tm2 = Some v2
    \<and> addr v2 = addr v \<and> bearerToken v2 = bearerToken v
    \<and> hc v2 \<noteq> hc v \<and> deref (hc_heap st) (hc v2) = None
    \<and> deref (hc_heap st') (hc v2) = Some c2
    \<and> Transport c2 \<noteq> Transport c \<and> deref (tr_heap st) (Transport c2) = None
    \<and> deref (tr_heap st') (Transport c2) = Some CleanhttpDefaultTransport
    \<and> deref (mw_heap st') tm = Some v
    \<and> deref (hc_heap st') (hc v) = Some c
    \<and> deref (tr_heap st') (Transport c) = Some t
    \<and> take (length (mw_heap st)) (mw_heap st') = mw_heap st
    \<and> take (length (hc_heap st)) (hc_heap st') = hc_heap st
    \<and> take (length (tr_heap st)) (tr_heap st') = tr_heap st
    \<and> wire st' = wire st"
proof -
  let ?c2 = "\<lparr>Transport = length (tr_heap st)\<rparr>"
  let ?v2 = "v\<lparr>hc := length (hc_heap st)\<rparr>"
  let ?st' = "st\<lparr>tr_heap := tr_heap st @ [CleanhttpDefaultTransport],
                 hc_heap := hc_heap st @ [?c2], mw_heap := mw_heap st @ [?v2]\<rparr>"
  have valid: "tm < length (mw_heap st)" "hc v < length (hc_heap st)"
      "Transport c < length (tr_heap st)"
    using deref_valid [OF mw] deref_valid [OF cl] deref_valid [OF tr] by simp_all
  have run: "UploadsClient st (TFClient tm) = (?st', Some (TFUploadsClient (length (mw_heap st))))"
    by (rule UploadsClient_eq [OF mw])
  have fresh: "deref (mw_heap st) (length (mw_heap st)) = None"
      "deref (hc_heap st) (length (hc_heap st)) = None"
      "deref (tr_heap st) (length (tr_heap st)) = None"
    by (simp_all add: deref_def)
  have new: "deref (mw_heap ?st') (length (mw_heap st)) = Some ?v2"
      "deref (hc_heap ?st') (length (hc_heap st)) = Some ?c2"
      "deref (tr_heap ?st') (length (tr_heap st)) = Some CleanhttpDefaultTransport"
    by (simp_all add: deref_append_new)
  have old: "deref (mw_heap ?st') tm = Some v" "deref (hc_heap ?st') (hc v) = Some c"
      "deref (tr_heap ?st') (Transport c) = Some t"
    using mw cl tr by (simp_all add: deref_append_old)
  show ?thesis
    apply (rule exI [of _ ?st'], rule exI [of _ "length (mw_heap st)"], rule exI [of _ ?v2],
        rule exI [of _ ?c2])
    using valid run fresh new old by simp
qed

theorem UploadsClient_fresh_transport_witness:
  "deref (mw_heap example_state) 0 = Some example_middleware
   \<and> deref (hc_heap example_state) (hc example_middleware) = Some \<lparr>Transport = 0\<rparr>
   \<and> deref (tr_heap example_state) 0 = Some CleanhttpDefaultTransport
   \<and> (\<exists>st' v2 c2.
        UploadsClient example_state example_client = (st', Some (TFUploadsClient 1))
      \<and> deref (mw_heap st') 1 = Some v2
      \<and> addr v2 = ''https://app.terraform.io'' \<and> bearerToken v2 = ''s3cr3t'' \<and> hc v2 = 1
      \<and> deref (hc_heap st') 1 = Some c2 \<and> Transport c2 = 1
      \<and> deref (tr_heap st') 1 = Some CleanhttpDefaultTransport
      \<and> deref (mw_heap st') 0 = Some example_middleware
      \<and> deref (hc_heap st') 0 = Some \<lparr>Transport = 0\<rparr>
      \<and> deref (tr_heap st') 0 = Some CleanhttpDefaultTransport
      \<and> wire st' = [])"
proof -
  have mw: "deref (mw_heap example_state) 0 = Some example_middleware"
    by (simp add: example_state_eq deref_def)
  have cl: "deref (hc_heap example_state) (hc example_middleware) = Some \<lparr>Transport = 0\<rparr>"
    by (simp add: example_state_eq example_middleware_def deref_def)
  have tr: "deref (tr_heap example_state) (Transport \<lparr>Transport = 0\<rparr>) = Some CleanhttpDefaultTransport"
    by (simp add: example_state_eq deref_def)
  from UploadsClient_fresh_transport [OF mw cl tr]
  obtain st' tm2 v2 c2 where
    r: "UploadsClient example_state (TFClient 0) = (st', Some (TFUploadsClient tm2))"
      "deref (mw_heap st') tm2 = Some v2" "addr v2 = addr example_middleware"
      "bearerToken v2 = bearerToken example_middleware"
      "deref (hc_heap st') (hc v2) = Some c2"
      "deref (tr_heap st') (Transport c2) = Some CleanhttpDefaultTransport"
      "deref (mw_heap st') 0 = Some example_middleware"
      "deref (hc_heap st') (hc example_middleware) = Some \<lparr>Transport = 0\<rparr>"
      "deref (tr_heap st') (Transport \<lparr>Transport = 0\<rparr>) = Some CleanhttpDefaultTransport"
      "wire st' = wire example_state"
    by blast
  have run: "UploadsClient example_state (TFClient 0) =
      (example_state\<lparr>tr_heap := tr_heap example_state @ [CleanhttpDefaultTransport],
         hc_heap := hc_heap example_state @ [\<lparr>Transport = length (tr_heap example_state)\<rparr>],
         mw_heap := mw_heap example_state @ [example_middleware\<lparr>hc := length (hc_heap example_state)\<rparr>]\<rparr>,
       Some (TFUploadsClient (length (mw_heap example_state))))"
    by (rule UploadsClient_eq [OF mw])
  have tm2: "tm2 = 1" and st': "st' = fst (UploadsClient example_state (TFClient 0))"
    using r(1) run by (simp_all add: example_state_eq)
  have v2: "hc v2 = 1" "Transport c2 = 1"
    using r(2,5) unfolding st' tm2 run by (auto simp add: example_state_eq deref_def)
  show ?thesis
    using mw cl tr r v2 unfolding tm2
    by (auto simp add: example_client_eq example_middleware_def example_state_eq)
qed

section \<open>The uploads client\<close>

lemma uploads_state_eq:
  "uploads_state =
     \<lparr>mw_heap = [example_middleware, uploads_middleware],
      hc_heap = [\<lparr>Transport = 0\<rparr>, \<lparr>Transport = 1\<rparr>],
      tr_heap = [CleanhttpDefaultTransport, CleanhttpDefaultTransport], wire = []\<rparr>"
proof -
  have "deref (mw_heap example_state) 0 = Some example_middleware"
    by (simp add: example_state_eq deref_def)
  from UploadsClient_eq [OF this] show ?thesis
    by (simp add: uploads_state_def example_client_eq example_state_eq uploads_middleware_def
        example_middleware_def)
qed

lemma uploads_client_eq: "UploadsClient example_state example_client = (uploads_state, Some uploads_client)"
proof -
  have "deref (mw_heap example_state) 0 = Some example_middleware"
    by (simp add: example_state_eq deref_def)
  from UploadsClient_eq [OF this] show ?thesis
    by (simp add: uploads_state_def example_client_eq example_state_eq uploads_client_def)
qed

lemma validMethod_PUT: "validMethod http_MethodPut"
  by (simp add: validMethod_def http_MethodPut_def isTokenByte_def isAlnum_def isDigit_def
      isUpper_def isLower_def byte_def)

lemma validMethod_POST: "validMethod http_MethodPost"
  by (simp add: validMethod_def http_MethodPost_def isTokenByte_def isAlnum_def isDigit_def
      isUpper_def isLower_def byte_def)

lemma example_upload_built:
  "buildRequest (example_lib net) uploads_middleware (SomeContext 0) http_MethodPut
      (Destination example_upload) [] (File example_upload)
   = Inr \<lparr>Method = ''PUT'', URL = ''https://app.terraform.io/https://storage.example/x'',
          Header = Map.empty, Body = Some ''PK'', Ctx = SomeContext 0\<rparr>"
  using validMethod_PUT
  by (simp add: buildRequest_def bodyReader_def example_upload_def http_NewRequestWithContext_def
      compileURL_def len_Values_def buildURL_def uploads_middleware_def example_lib_def
      http_MethodPut_def)

lemma uploadRequest_fields:
  "URL (uploadRequest lib data req0) = URL req0" "Method (uploadRequest lib data req0) = Method req0"
  "Body (uploadRequest lib data req0) = Body req0"
  by (simp_all add: uploadRequest_def Let_def)

lemma uploads_cell: "deref (mw_heap uploads_state) 1 = Some uploads_middleware"
  by (simp add: uploads_state_eq deref_def)

lemma example_upload_run:
  "UploadFile (example_lib (answer 200 [])) uploads_state uploads_client (SomeContext 0) example_upload
   = (uploads_state\<lparr>wire := wire uploads_state @
        [(hc uploads_middleware,
          uploadRequest (example_lib (answer 200 [])) example_upload
            \<lparr>Method = ''PUT'', URL = ''https://app.terraform.io/https://storage.example/x'',
             Header = Map.empty, Body = Some ''PK'', Ctx = SomeContext 0\<rparr>)]\<rparr>,
      None)"
proof -
  let ?lib = "example_lib (answer 200 []) :: (string, string, string) golib"
  have handled: "result_error (handleResponse ?lib req (fst (roundTrip ?lib w c req))
      (snd (roundTrip ?lib w c req)) (None :: string option) http_StatusOK) = None" for req w c
    by (simp add: example_lib_def answer_def handleResponse_def respond_def result_error_def
        http_StatusOK_def)
  show ?thesis
    unfolding uploads_client_def
    by (simp only: UploadFile_built [OF uploads_cell example_upload_built] handled)
qed

text \<open>
  What \<^verbatim>\<open>UploadFile\<close> sends, on every input: it hands the destination to \<^verbatim>\<open>buildRequest\<close>
  as the route, so the URL of every request it puts on the wire is the base address of
  the middleware, a slash and the destination, as \<^verbatim>\<open>buildURL\<close> builds it. One request is
  sent when the request can be built, and none when it cannot.
\<close>

lemma UploadFile_URL_has_base_address:
  assumes cell: "deref (mw_heap st) m = Some tm"
  shows "list_all (\<lambda>(c, req). c = hc tm \<and> Method req = http_MethodPut
              \<and> URL req = addr tm @ ''/'' @ Destination data)
           (issued st (fst (UploadFile lib st (TFUploadsClient m) ctx data)))
    \<and> (\<forall>req0. buildRequest lib tm ctx http_MethodPut (Destination data) [] (File data) = Inr req0 \<longrightarrow>
          issued_URLs st (fst (UploadFile lib st (TFUploadsClient m) ctx data))
            = [buildURL tm (Destination data)])
    \<and> (\<forall>e. buildRequest lib tm ctx http_MethodPut (Destination data) [] (File data) = Inl e \<longrightarrow>
          issued st (fst (UploadFile lib st (TFUploadsClient m) ctx data)) = [])"
proof (cases "buildRequest lib tm ctx http_MethodPut (Destination data) [] (File data)")
  case (Inl e)
  then show ?thesis
    by (simp add: UploadFile_failed [OF cell Inl] issued_same del: UploadFile.simps)
next
  case (Inr req0)
  have url: "URL req0 = addr tm @ ''/'' @ Destination data"
    using buildRequest_Inr(1) [OF Inr] by (simp add: compileURL_def len_Values_def buildURL_def)
  have meth: "Method req0 = http_MethodPut"
    using buildRequest_Inr(2) [OF Inr] by (simp add: http_MethodPut_def)
  show ?thesis
    by (simp add: UploadFile_built [OF cell Inr] Inr issued_append issued_URLs_def
        uploadRequest_fields url meth buildURL_def del: UploadFile.simps)
qed

text \<open>
  C1. The spec has \<^verbatim>\<open>uploadFile\<close> issue its PUT to exactly the supplied destination, which
  is not combined with the base address. The code does otherwise. On the spec's own
  example, a client made for \<^verbatim>\<open>https://app.terraform.io/\<close> and an upload with the
  destination \<^verbatim>\<open>https://storage.example/x\<close>, the one request \<^verbatim>\<open>UploadFile\<close> sends goes to
  \<^verbatim>\<open>https://app.terraform.io/https://storage.example/x\<close>, which is not the destination.
  \<^verbatim>\<open>UploadFile\<close> sets no bearer token, where both create operations do, and runs on an
  HTTP client of its own: it is written as a PUT to a URL the caller supplies, and the
  destination meets the base address only because \<^verbatim>\<open>buildRequest\<close> is reused for it.
\<close>

theorem UploadFile_sends_to_prefixed_URL:
  "issued_URLs uploads_state
      (fst (UploadFile (example_lib (answer 200 [])) uploads_state uploads_client (SomeContext 0)
              example_upload))
     = [''https://app.terraform.io/https://storage.example/x'']
   \<and> issued_URLs uploads_state
      (fst (UploadFile (example_lib (answer 200 [])) uploads_state uploads_client (SomeContext 0)
              example_upload))
     \<noteq> [Destination example_upload]"
proof -
  have dest: "Destination example_upload = ''https://storage.example/x''"
    by (simp add: example_upload_def)
  show ?thesis
    by (simp add: example_upload_run issued_URLs_def issued_append uploadRequest_fields dest
        del: UploadFile.simps)
qed

section \<open>The base address and the target URL\<close>

lemma newTFClientMiddleware_eq:
  "newTFClientMiddleware st cfg =
     (st\<lparr>mw_heap := mw_heap st @
            [\<lparr>addr = strings_Trim (TFAddress cfg) ''/'', bearerToken = TFToken cfg,
              hc = length (hc_heap st)\<rparr>],
         tr_heap := tr_heap st @ [CleanhttpDefaultTransport],
         hc_heap := hc_heap st @ [\<lparr>Transport = length (tr_heap st)\<rparr>]\<rparr>,
      length (mw_heap st))"
  by (simp add: newTFClientMiddleware_def new_tfClientMiddleware_def mw_store_def
      cleanhttp_DefaultClient_def Let_def)

lemma postJSON_mw_heap: "mw_heap (fst (postJSON lib st m ctx route data)) = mw_heap st"
  by (simp add: postJSON_def do_request_def Let_def split: option.splits sum.splits prod.splits)

lemma UploadFile_mw_heap: "mw_heap (fst (UploadFile lib st uc ctx data)) = mw_heap st"
  by (cases uc) (simp add: do_request_def Let_def split: option.splits sum.splits prod.splits)

lemma CreateProviderVersion_mw_heap:
  "mw_heap (fst (CreateProviderVersion lib st pc ctx orgName regName namespace provName data))
     = mw_heap st"
  by (cases pc) (simp only: CreateProviderVersion_postJSON postJSON_mw_heap)

lemma CreateProviderVersionPlatform_mw_heap:
  "mw_heap (fst (CreateProviderVersionPlatform lib st pc ctx orgName regName namespace provName
      provVersion data)) = mw_heap st"
  by (cases pc) (simp only: CreateProviderVersionPlatform_postJSON postJSON_mw_heap)

lemma UploadsClient_mw_old:
  assumes "deref (mw_heap st) p = Some v"
  shows "deref (mw_heap (fst (UploadsClient st tc))) p = Some v"
proof (cases tc)
  case (TFClient tm)
  have p: "p < length (mw_heap st)" using assms by (rule deref_valid)
  show ?thesis
    using assms p unfolding TFClient
    by (auto simp add: copy_def new_tfClientMiddleware_def cleanhttp_DefaultClient_def mw_store_def
        deref_def nth_append Let_def split: option.splits if_splits)
qed

lemma NewTFClient_mw_old:
  assumes "deref (mw_heap st) p = Some v"
  shows "deref (mw_heap (fst (NewTFClient st cfg))) p = Some v"
  using assms by (simp add: NewTFClient_def newTFClientMiddleware_eq deref_append_old)

lemma example_made: "newTFClientMiddleware empty_state example_config = (example_state, 0)"
  by (simp add: example_state_def NewTFClient_def newTFClientMiddleware_eq empty_state_def)

lemma example_cell: "deref (mw_heap example_state) 0 = Some example_middleware"
  by (simp add: example_state_eq deref_def)

lemma example_parses:
  "url_Parse_err (example_lib net) (compileURL example_middleware ''r'' query) = None"
proof -
  have "CHR 0x7F \<notin> set (Values_Encode query)"
    using Values_Encode_query [of query]
    by (auto simp add: list_all_iff isQueryByte_def isAlnum_def isDigit_def isUpper_def isLower_def
        byte_def)
  then show ?thesis
    by (simp add: example_lib_def compileURL_def buildURL_def example_middleware_def)
qed

lemma example_builds:
  "buildRequest (example_lib net) example_middleware (SomeContext 0) http_MethodPost ''r'' query None
   = Inr \<lparr>Method = http_MethodPost, URL = compileURL example_middleware ''r'' query,
          Header = Map.empty, Body = None, Ctx = SomeContext 0\<rparr>"
proof -
  have m: "validMethod (if http_MethodPost = [] then ''GET'' else http_MethodPost)"
    using validMethod_POST by (simp add: http_MethodPost_def)
  have "http_NewRequestWithContext (example_lib net) (SomeContext 0) http_MethodPost
      (compileURL example_middleware ''r'' query) None
    = Inr \<lparr>Method = (if http_MethodPost = [] then ''GET'' else http_MethodPost),
           URL = compileURL example_middleware ''r'' query, Header = Map.empty, Body = None,
           Ctx = SomeContext 0\<rparr>"
    by (rule NewRequest_Inr [OF m _ example_parses]) simp
  then show ?thesis
    by (simp add: buildRequest_def bodyReader_def http_MethodPost_def)
qed

lemma example_query: "Values_Encode [(''q'', [''a b''])] = ''q=a+b''"
  by (simp add: Values_Encode_def Values_keys_def encodePairs_def url_QueryEscape_def escapeByte_def
      shouldEscape_def isAlnum_def isDigit_def isUpper_def isLower_def byte_def)

lemma slash_middleware_eq:
  "slash_middleware = \<lparr>addr = ''registry.example'', bearerToken = ''s3cr3t'', hc = 0\<rparr>"
  by (simp add: slash_middleware_def newTFClientMiddleware_eq slash_config_def empty_state_def
      strings_Trim_def strings_TrimLeft_def strings_TrimRight_def)

text \<open>
  C3, as the spec states it, fails: \<^verbatim>\<open>strings.Trim\<close> removes the leading slashes of the
  configured address too. With the address \<^verbatim>\<open>//registry.example/\<close> the URL of the route
  \<^verbatim>\<open>r\<close> is \<^verbatim>\<open>registry.example/r\<close>, and not the address without its trailing slashes
  followed by the route.
\<close>

theorem buildRequest_target_URL_counterexample:
  "request_URL (buildRequest (example_lib (answer 200 [])) slash_middleware (SomeContext 0)
      http_MethodPost ''r'' [] None) = Some ''registry.example/r''
   \<and> request_URL (buildRequest (example_lib (answer 200 [])) slash_middleware (SomeContext 0)
      http_MethodPost ''r'' [] None)
     \<noteq> Some (strings_TrimRight (TFAddress slash_config) ''/'' @ ''/'' @ ''r'')"
  using validMethod_POST
  by (simp add: request_URL_def buildRequest_def bodyReader_def http_NewRequestWithContext_def
      compileURL_def len_Values_def buildURL_def slash_middleware_eq example_lib_def
      http_MethodPost_def slash_config_def strings_TrimRight_def)

text \<open>
  C3, amended. The base address of a middleware made by \<^verbatim>\<open>newTFClientMiddleware\<close> is the
  configured address with its leading and its trailing slashes removed: the configured
  address is slashes, the base address, slashes, and the base address neither starts nor
  ends with a slash. For every route and query, the URL of the request \<^verbatim>\<open>buildRequest\<close>
  returns is the base address, a slash and the route, followed by a question mark and the
  encoded query when the query has a key, and by nothing when it has none; the encoded
  query has no byte that would need an escape. No operation of the file changes the cell
  of the middleware.
\<close>

theorem buildRequest_target_URL:
  assumes made: "newTFClientMiddleware st0 cfg = (st, p)"
    and cell: "deref (mw_heap st) p = Some tm"
  shows "addr tm = strings_Trim (TFAddress cfg) ''/''
    \<and> (\<exists>pre suf. TFAddress cfg = pre @ addr tm @ suf \<and> set pre \<subseteq> {CHR ''/''} \<and> set suf \<subseteq> {CHR ''/''})
    \<and> (addr tm = [] \<or> (hd (addr tm) \<noteq> CHR ''/'' \<and> last (addr tm) \<noteq> CHR ''/''))
    \<and> (\<forall>r. buildRequest lib tm ctx meth route query body = Inr r \<longrightarrow>
          URL r = addr tm @ ''/'' @ route
                    @ (if 0 < len_Values query then ''?'' @ Values_Encode query else []))
    \<and> list_all isQueryByte (Values_Encode query)
    \<and> (\<forall>s. deref (mw_heap s) p = Some tm \<longrightarrow>
          deref (mw_heap (fst (CreateProviderVersion lib s pc ctx1 orgName regName namespace provName data))) p
            = Some tm
        \<and> deref (mw_heap (fst (CreateProviderVersionPlatform lib s pc ctx1 orgName regName namespace
              provName provVersion data))) p = Some tm
        \<and> deref (mw_heap (fst (UploadFile lib s uc ctx1 upload))) p = Some tm
        \<and> deref (mw_heap (fst (UploadsClient s tc))) p = Some tm
        \<and> deref (mw_heap (fst (NewTFClient s cfg1))) p = Some tm)"
proof -
  have tm: "tm = \<lparr>addr = strings_Trim (TFAddress cfg) ''/'', bearerToken = TFToken cfg,
      hc = length (hc_heap st0)\<rparr>"
    using made cell by (auto simp add: newTFClientMiddleware_eq deref_def)
  then have a: "addr tm = strings_Trim (TFAddress cfg) ''/''" by simp
  have b: "\<exists>pre suf. TFAddress cfg = pre @ addr tm @ suf \<and> set pre \<subseteq> {CHR ''/''} \<and> set suf \<subseteq> {CHR ''/''}"
    using Trim_decomp [of "TFAddress cfg" "''/''"] by (simp add: a)
  have c: "addr tm = [] \<or> (hd (addr tm) \<noteq> CHR ''/'' \<and> last (addr tm) \<noteq> CHR ''/'')"
    using Trim_ends [of "TFAddress cfg" "''/''"] by (auto simp add: a)
  have d: "URL r = addr tm @ ''/'' @ route
      @ (if 0 < len_Values query then ''?'' @ Values_Encode query else [])"
    if "buildRequest lib tm ctx meth route query body = Inr r" for r
    using buildRequest_Inr(1) [OF that] by (simp add: compileURL_def buildURL_def)
  have e: "list_all isQueryByte (Values_Encode query)" by (rule Values_Encode_query)
  show ?thesis
    using a b c d e
    by (simp add: CreateProviderVersion_mw_heap CreateProviderVersionPlatform_mw_heap
        UploadFile_mw_heap UploadsClient_mw_old NewTFClient_mw_old
        del: CreateProviderVersion.simps CreateProviderVersionPlatform.simps UploadFile.simps
          UploadsClient.simps)
qed

theorem buildRequest_target_URL_witness:
  "newTFClientMiddleware empty_state example_config = (example_state, 0)
   \<and> deref (mw_heap example_state) 0 = Some example_middleware
   \<and> addr example_middleware = ''https://app.terraform.io''
   \<and> request_URL (buildRequest (example_lib (answer 200 [])) example_middleware (SomeContext 0)
        http_MethodPost ''r'' [(''q'', [''a b''])] None) = Some ''https://app.terraform.io/r?q=a+b''
   \<and> request_URL (buildRequest (example_lib (answer 200 [])) example_middleware (SomeContext 0)
        http_MethodPost ''r'' [] None) = Some ''https://app.terraform.io/r''"
proof -
  note t = buildRequest_target_URL [OF example_made example_cell,
      where lib = "example_lib (answer 200 [])" and ctx = "SomeContext 0"
        and meth = http_MethodPost and route = "''r''" and body = None]
  have 1: "URL r = addr example_middleware @ ''/'' @ ''r'' @ ''?'' @ ''q=a+b''"
    if "buildRequest (example_lib (answer 200 [])) example_middleware (SomeContext 0)
          http_MethodPost ''r'' [(''q'', [''a b''])] None = Inr r" for r
    using t [where query = "[(''q'', [''a b''])]"] that
    by (simp add: example_query len_Values_def)
  have 2: "URL r = addr example_middleware @ ''/'' @ ''r''"
    if "buildRequest (example_lib (answer 200 [])) example_middleware (SomeContext 0)
          http_MethodPost ''r'' [] None = Inr r" for r
    using t [where query = "[]"] that by (simp add: len_Values_def)
  have a: "addr example_middleware = ''https://app.terraform.io''"
    using t [where query = "[]"]
    by (simp add: example_config_def strings_Trim_def strings_TrimLeft_def strings_TrimRight_def)
  show ?thesis
    using example_made example_cell a 1 [OF example_builds] 2 [OF example_builds]
    by (simp add: request_URL_def example_builds)
qed

section \<open>The body of a request\<close>

lemma buildRequest_bytes:
  "buildRequest lib tm ctx meth route query (Some (IoReader bs))
     = http_NewRequestWithContext lib ctx meth (compileURL tm route query) (Some bs)"
  "buildRequest lib tm ctx meth route query (Some (ByteSlice bs))
     = http_NewRequestWithContext lib ctx meth (compileURL tm route query) (Some bs)"
  by (simp_all add: buildRequest_def bodyReader_def)

lemma buildRequest_other:
  "json_Marshal lib v = Inr js \<Longrightarrow>
     buildRequest lib tm ctx meth route query (Some (Other v))
       = http_NewRequestWithContext lib ctx meth (compileURL tm route query) (Some js)"
  "json_Marshal lib v = Inl err \<Longrightarrow>
     buildRequest lib tm ctx meth route query (Some (Other v)) = Inl (ErrMarshalling err)"
  by (simp_all add: buildRequest_def bodyReader_def)

lemma NewRequest_Body:
  "http_NewRequestWithContext lib ctx meth url b = Inr r \<Longrightarrow> Body r = b"
  by (auto simp add: http_NewRequestWithContext_def Let_def split: if_splits option.splits)

text \<open>
  C2. \<^verbatim>\<open>buildRequest\<close> reads a non-nil body by its kind. An \<^verbatim>\<open>io.Reader\<close> and a \<^verbatim>\<open>[]byte\<close>
  are handed to \<^verbatim>\<open>http.NewRequestWithContext\<close> as they are: the step cannot fail, no
  marshalling error can come back, the body of a request built is the input byte for
  byte, and a request is built whenever the library accepts the method, the context and
  the URL. Any other value is marshalled to JSON, and the JSON is the body; when
  \<^verbatim>\<open>json.Marshal\<close> fails, \<^verbatim>\<open>buildRequest\<close> returns the marshalling error, and each
  operation returns it with the state as it was: nothing has gone on the wire.
\<close>

theorem buildRequest_body_dispatch:
  "bodyReader lib (Some (IoReader bs)) = Inr (Some bs)
   \<and> bodyReader lib (Some (ByteSlice bs)) = Inr (Some bs)
   \<and> buildRequest lib tm ctx meth route query (Some (IoReader bs))
       = http_NewRequestWithContext lib ctx meth (compileURL tm route query) (Some bs)
   \<and> buildRequest lib tm ctx meth route query (Some (ByteSlice bs))
       = http_NewRequestWithContext lib ctx meth (compileURL tm route query) (Some bs)
   \<and> (\<forall>r. buildRequest lib tm ctx meth route query (Some (IoReader bs)) = Inr r \<longrightarrow> Body r = Some bs)
   \<and> (\<forall>r. buildRequest lib tm ctx meth route query (Some (ByteSlice bs)) = Inr r \<longrightarrow> Body r = Some bs)
   \<and> (\<forall>e. buildRequest lib tm ctx meth route query (Some (IoReader bs)) \<noteq> Inl (ErrMarshalling e))
   \<and> (\<forall>e. buildRequest lib tm ctx meth route query (Some (ByteSlice bs)) \<noteq> Inl (ErrMarshalling e))
   \<and> (validMethod (if meth = [] then ''GET'' else meth) \<and> ctx \<noteq> NilContext
        \<and> url_Parse_err lib (compileURL tm route query) = None \<longrightarrow>
          (\<exists>r. buildRequest lib tm ctx meth route query (Some (IoReader bs)) = Inr r)
        \<and> (\<exists>r. buildRequest lib tm ctx meth route query (Some (ByteSlice bs)) = Inr r))
   \<and> (\<forall>js. json_Marshal lib v = Inr js \<longrightarrow>
          buildRequest lib tm ctx meth route query (Some (Other v))
            = http_NewRequestWithContext lib ctx meth (compileURL tm route query) (Some js))
   \<and> (\<forall>err. json_Marshal lib v = Inl err \<longrightarrow>
          buildRequest lib tm ctx meth route query (Some (Other v)) = Inl (ErrMarshalling err))
   \<and> (\<forall>err tm1. json_Marshal lib v = Inl err \<and> deref (mw_heap st) m = Some tm1 \<longrightarrow>
          CreateProviderVersion lib st (TFProviderClient m) ctx orgName regName namespace provName v
            = (st, Inl (ErrMarshalling err))
        \<and> CreateProviderVersionPlatform lib st (TFProviderClient m) ctx orgName regName namespace
              provName provVersion v
            = (st, Inl (ErrMarshalling err)))
   \<and> (\<forall>err tm1. json_Marshal lib v = Inl err \<and> deref (mw_heap st) m = Some tm1
          \<and> File upload = Some (Other v) \<longrightarrow>
          UploadFile lib st (TFUploadsClient m) ctx upload = (st, Some (ErrMarshalling err)))"
proof -
  have rd: "bodyReader lib (Some (IoReader bs)) = Inr (Some bs)"
      "bodyReader lib (Some (ByteSlice bs)) = Inr (Some bs)"
    by (simp_all add: bodyReader_def)
  have body: "Body r = Some bs"
    if "http_NewRequestWithContext lib ctx meth (compileURL tm route query) (Some bs) = Inr r" for r
    using that by (rule NewRequest_Body)
  have total: "\<exists>r. http_NewRequestWithContext lib ctx meth (compileURL tm route query) (Some bs) = Inr r"
    if "validMethod (if meth = [] then ''GET'' else meth)" "ctx \<noteq> NilContext"
      "url_Parse_err lib (compileURL tm route query) = None"
    using NewRequest_Inr [OF that] by simp
  have create: "CreateProviderVersion lib st (TFProviderClient m) ctx orgName regName namespace provName v
        = (st, Inl (ErrMarshalling err))"
      "CreateProviderVersionPlatform lib st (TFProviderClient m) ctx orgName regName namespace
          provName provVersion v = (st, Inl (ErrMarshalling err))"
    if "json_Marshal lib v = Inl err" "deref (mw_heap st) m = Some tm1" for err tm1
    using that
    by (simp_all only: CreateProviderVersion_postJSON CreateProviderVersionPlatform_postJSON
        postJSON_failed [OF that(2) buildRequest_other(2) [OF that(1)]])
  have upload: "UploadFile lib st (TFUploadsClient m) ctx upload = (st, Some (ErrMarshalling err))"
    if "json_Marshal lib v = Inl err" "deref (mw_heap st) m = Some tm1" "File upload = Some (Other v)"
    for err tm1
    using UploadFile_failed [OF that(2), of lib ctx upload "ErrMarshalling err"]
      buildRequest_other(2) [OF that(1)] that(3)
    by (simp del: UploadFile.simps)
  show ?thesis
    using rd body total create upload
    by (simp add: buildRequest_bytes buildRequest_other NewRequest_not_marshalling
        del: CreateProviderVersion.simps CreateProviderVersionPlatform.simps UploadFile.simps)
qed

theorem buildRequest_body_dispatch_witness:
  "json_Marshal (example_lib (answer 200 [])) ''chan'' = Inl ''json: unsupported type: chan int''
   \<and> deref (mw_heap example_state) 0 = Some example_middleware
   \<and> CreateProviderVersion (example_lib (answer 200 [])) example_state (TFProviderClient 0)
         (SomeContext 0) ''acme'' ''priv'' ''myorg'' ''tool'' ''chan''
       = (example_state, Inl (ErrMarshalling ''json: unsupported type: chan int''))
   \<and> validMethod (if http_MethodPut = [] then ''GET'' else http_MethodPut)
   \<and> url_Parse_err (example_lib (answer 200 [])) (compileURL example_middleware ''r'' []) = None
   \<and> (\<exists>r. buildRequest (example_lib (answer 200 [])) example_middleware (SomeContext 0)
              http_MethodPut ''r'' [] (Some (ByteSlice ''PK'')) = Inr r
          \<and> Body r = Some ''PK'')"
proof -
  let ?lib = "example_lib (answer 200 []) :: (string, string, string) golib"
  note t = buildRequest_body_dispatch
    [where lib = ?lib and v = "''chan''" and st = example_state and m = 0
      and tm = example_middleware and ctx = "SomeContext 0" and meth = http_MethodPut
      and route = "''r''" and query = "[]" and bs = "''PK''"
      and orgName = "''acme''" and regName = "''priv''" and namespace = "''myorg''"
      and provName = "''tool''"]
  have fails: "json_Marshal ?lib ''chan'' = Inl ''json: unsupported type: chan int''"
    by (simp add: example_lib_def)
  have m: "validMethod (if http_MethodPut = [] then ''GET'' else http_MethodPut)"
    using validMethod_PUT by (simp add: http_MethodPut_def)
  have u: "url_Parse_err ?lib (compileURL example_middleware ''r'' []) = None"
    by (rule example_parses)
  have c: "SomeContext 0 \<noteq> NilContext" by simp
  from t fails example_cell
  have create: "CreateProviderVersion ?lib example_state (TFProviderClient 0)
         (SomeContext 0) ''acme'' ''priv'' ''myorg'' ''tool'' ''chan''
       = (example_state, Inl (ErrMarshalling ''json: unsupported type: chan int''))"
    by blast
  from t m u c
  obtain r where r: "buildRequest ?lib example_middleware (SomeContext 0)
              http_MethodPut ''r'' [] (Some (ByteSlice ''PK'')) = Inr r"
    by blast
  with t have "Body r = Some ''PK''" by blast
  with r fails example_cell create m u show ?thesis by blast
qed

section \<open>The create operations\<close>

lemma createRequest_fields:
  "URL (createRequest tm req0) = URL req0" "Method (createRequest tm req0) = Method req0"
  "Body (createRequest tm req0) = Body req0"
  by (simp_all add: createRequest_def setBearerToken_def Let_def)

lemma createRequest_Header:
  "Header (createRequest tm req0) =
     (Header req0)(headerAuthorization \<mapsto> [''Bearer '' @ bearerToken tm],
                   headerContentType \<mapsto> [applicationVNDAPIJSON],
                   headerAccept \<mapsto> [applicationJSON])"
  by (simp add: createRequest_def setBearerToken_def Header_Set_def canonical_keys Let_def)


lemma postJSON_issued:
  assumes cell: "deref (mw_heap st) m = Some tm"
  shows "list_all (\<lambda>(c, req). c = hc tm \<and> Method req = ''POST'' \<and> URL req = addr tm @ ''/'' @ route
            \<and> Header req ''Content-Type'' = Some [''application/vnd.api+json'']
            \<and> Header req ''Accept'' = Some [''application/json'']
            \<and> Header req ''Authorization'' = Some [''Bearer '' @ bearerToken tm])
           (issued st (fst (postJSON lib st m ctx route data)))"
proof (cases "buildRequest lib tm ctx http_MethodPost route [] (Some (Other data))")
  case (Inl e)
  then show ?thesis by (simp add: postJSON_failed [OF cell Inl] issued_same)
next
  case (Inr req0)
  have url: "URL req0 = addr tm @ ''/'' @ route"
    using buildRequest_Inr(1) [OF Inr] by (simp add: compileURL_def len_Values_def buildURL_def)
  have meth: "Method req0 = ''POST''"
    using buildRequest_Inr(2) [OF Inr] by (simp add: http_MethodPost_def)
  have hdr: "Header (createRequest tm req0) ''Content-Type'' = Some [''application/vnd.api+json'']"
      "Header (createRequest tm req0) ''Accept'' = Some [''application/json'']"
      "Header (createRequest tm req0) ''Authorization'' = Some [''Bearer '' @ bearerToken tm]"
    by (simp_all add: createRequest_Header headerAccept_def headerAuthorization_def
        headerContentType_def applicationVNDAPIJSON_def applicationJSON_def)
  show ?thesis
    by (simp add: postJSON_built [OF cell Inr] issued_append createRequest_fields url meth hdr)
qed

lemma versionsRoute_eq:
  "versionsRoute orgName regName namespace provName =
     ''api/v2/organizations/'' @ orgName @ ''/registry-providers/'' @ regName @ ''/'' @ namespace
       @ ''/'' @ provName @ ''/versions''"
  by (simp add: versionsRoute_def buildRoute_def pathAPI_def pathV2_def pathOrganizations_def
      pathRegistryProviders_def pathVersions_def)

lemma platformsRoute_eq:
  "platformsRoute orgName regName namespace provName provVersion =
     versionsRoute orgName regName namespace provName @ ''/'' @ provVersion @ ''/platforms''"
  by (simp add: versionsRoute_def platformsRoute_def buildRoute_def pathAPI_def pathV2_def
      pathOrganizations_def pathRegistryProviders_def pathVersions_def pathPlatforms_def)






lemma example_create_built:
  assumes "CHR 0x7F \<notin> set route" and "v \<noteq> ''chan''"
  shows "buildRequest (example_lib net) example_middleware (SomeContext 0) http_MethodPost route []
      (Some (Other v))
   = Inr \<lparr>Method = ''POST'', URL = ''https://app.terraform.io/'' @ route, Header = Map.empty,
          Body = Some v, Ctx = SomeContext 0\<rparr>"
  using assms validMethod_POST
  by (simp add: buildRequest_def bodyReader_def http_NewRequestWithContext_def compileURL_def
      len_Values_def buildURL_def example_middleware_def example_lib_def http_MethodPost_def)

lemma example_routes_parse:
  "CHR 0x7F \<notin> set (versionsRoute ''acme'' ''priv'' ''myorg'' ''tool'')"
  "CHR 0x7F \<notin> set (platformsRoute ''acme'' ''priv'' ''myorg'' ''tool'' ''1.2.3'')"
  by (simp_all add: platformsRoute_eq versionsRoute_eq)

lemma example_create_issued:
  assumes "CHR 0x7F \<notin> set route"
  shows "issued example_state (fst (postJSON (example_lib net) example_state 0 (SomeContext 0) route ''{}''))
     = [(0, createRequest example_middleware
              \<lparr>Method = ''POST'', URL = ''https://app.terraform.io/'' @ route, Header = Map.empty,
               Body = Some ''{}'', Ctx = SomeContext 0\<rparr>)]"
proof -
  have b: "buildRequest (example_lib net) example_middleware (SomeContext 0) http_MethodPost route []
      (Some (Other ''{}'')) = Inr \<lparr>Method = ''POST'', URL = ''https://app.terraform.io/'' @ route,
          Header = Map.empty, Body = Some ''{}'', Ctx = SomeContext 0\<rparr>"
    by (rule example_create_built [OF assms]) simp
  show ?thesis
    by (simp add: postJSON_built [OF example_cell b] issued_append example_middleware_def)
qed




text \<open>
  C4. The route of \<^verbatim>\<open>CreateProviderVersion\<close> is the segments \<^verbatim>\<open>api\<close>, \<^verbatim>\<open>v2\<close>,
  \<^verbatim>\<open>organizations\<close>, the organization, \<^verbatim>\<open>registry-providers\<close>, the registry name, the
  namespace, the provider name and \<^verbatim>\<open>versions\<close>, in this order, joined by slashes; the
  route of \<^verbatim>\<open>CreateProviderVersionPlatform\<close> is that route followed by the version and
  \<^verbatim>\<open>platforms\<close>. For org \<^verbatim>\<open>acme\<close>, registry \<^verbatim>\<open>priv\<close>, namespace \<^verbatim>\<open>myorg\<close>, provider \<^verbatim>\<open>tool\<close> and
  version \<^verbatim>\<open>1.2.3\<close> they are the two routes of the spec, and every request the two
  operations send goes to the base address, a slash and the route.
\<close>

theorem route_construction:
  "versionsRoute ''acme'' ''priv'' ''myorg'' ''tool''
     = ''api/v2/organizations/acme/registry-providers/priv/myorg/tool/versions''
   \<and> platformsRoute ''acme'' ''priv'' ''myorg'' ''tool'' ''1.2.3''
     = ''api/v2/organizations/acme/registry-providers/priv/myorg/tool/versions/1.2.3/platforms''
   \<and> versionsRoute orgName regName namespace provName
     = ''api/v2/organizations/'' @ orgName @ ''/registry-providers/'' @ regName @ ''/'' @ namespace
         @ ''/'' @ provName @ ''/versions''
   \<and> platformsRoute orgName regName namespace provName provVersion
     = versionsRoute orgName regName namespace provName @ ''/'' @ provVersion @ ''/platforms''
   \<and> (\<forall>tm. deref (mw_heap st) m = Some tm \<longrightarrow>
         list_all (\<lambda>(c, req). URL req = addr tm @ ''/'' @ versionsRoute orgName regName namespace provName)
           (issued st (fst (CreateProviderVersion lib st (TFProviderClient m) ctx orgName regName
                              namespace provName data)))
       \<and> list_all (\<lambda>(c, req). URL req
                      = addr tm @ ''/'' @ platformsRoute orgName regName namespace provName provVersion)
           (issued st (fst (CreateProviderVersionPlatform lib st (TFProviderClient m) ctx orgName
                              regName namespace provName provVersion data))))"
proof -
  have weaken: "list_all (\<lambda>(c, req). URL req = addr tm @ ''/'' @ route)
        (issued st (fst (postJSON lib st m ctx route data)))"
    if "deref (mw_heap st) m = Some tm" for tm route
    using postJSON_issued [OF that, of route lib ctx data]
    by (auto simp add: list_all_iff)
  show ?thesis
    using weaken
    by (simp add: versionsRoute_eq platformsRoute_eq CreateProviderVersion_postJSON
        CreateProviderVersionPlatform_postJSON
        del: CreateProviderVersion.simps CreateProviderVersionPlatform.simps)
qed

theorem route_construction_witness:
  "deref (mw_heap example_state) 0 = Some example_middleware
   \<and> issued_URLs example_state
        (fst (CreateProviderVersion (example_lib (answer 201 ''{}'')) example_state (TFProviderClient 0)
                (SomeContext 0) ''acme'' ''priv'' ''myorg'' ''tool'' ''{}''))
      = [''https://app.terraform.io/api/v2/organizations/acme/registry-providers/priv/myorg/tool/versions'']
   \<and> issued_URLs example_state
        (fst (CreateProviderVersionPlatform (example_lib (answer 201 ''{}'')) example_state
                (TFProviderClient 0) (SomeContext 0) ''acme'' ''priv'' ''myorg'' ''tool'' ''1.2.3'' ''{}''))
      = [''https://app.terraform.io/api/v2/organizations/acme/registry-providers/priv/myorg/tool/versions/1.2.3/platforms'']"
proof -
  let ?lib = "example_lib (answer 201 ''{}'') :: (string, string, string) golib"
  note t = route_construction
    [where orgName = "''acme''" and regName = "''priv''" and namespace = "''myorg''"
      and provName = "''tool''" and provVersion = "''1.2.3''" and st = example_state and m = 0
      and lib = ?lib and ctx = "SomeContext 0" and data = "''{}''"]
  have a: "addr example_middleware = ''https://app.terraform.io''"
    by (simp add: example_middleware_def)
  have v: "issued example_state
        (fst (CreateProviderVersion ?lib example_state (TFProviderClient 0)
                (SomeContext 0) ''acme'' ''priv'' ''myorg'' ''tool'' ''{}''))
      = [(0, createRequest example_middleware
              \<lparr>Method = ''POST'',
               URL = ''https://app.terraform.io/'' @ versionsRoute ''acme'' ''priv'' ''myorg'' ''tool'',
               Header = Map.empty, Body = Some ''{}'', Ctx = SomeContext 0\<rparr>)]"
    unfolding CreateProviderVersion_postJSON
    by (rule example_create_issued [OF example_routes_parse(1)])
  have p: "issued example_state
        (fst (CreateProviderVersionPlatform ?lib example_state (TFProviderClient 0)
                (SomeContext 0) ''acme'' ''priv'' ''myorg'' ''tool'' ''1.2.3'' ''{}''))
      = [(0, createRequest example_middleware
              \<lparr>Method = ''POST'',
               URL = ''https://app.terraform.io/''
                       @ platformsRoute ''acme'' ''priv'' ''myorg'' ''tool'' ''1.2.3'',
               Header = Map.empty, Body = Some ''{}'', Ctx = SomeContext 0\<rparr>)]"
    unfolding CreateProviderVersionPlatform_postJSON
    by (rule example_create_issued [OF example_routes_parse(2)])
  from t have r1: "versionsRoute ''acme'' ''priv'' ''myorg'' ''tool''
      = ''api/v2/organizations/acme/registry-providers/priv/myorg/tool/versions''"
    and r2: "platformsRoute ''acme'' ''priv'' ''myorg'' ''tool'' ''1.2.3''
      = ''api/v2/organizations/acme/registry-providers/priv/myorg/tool/versions/1.2.3/platforms''"
    by blast+
  show ?thesis
    using example_cell
    by (simp add: issued_URLs_def v p createRequest_fields r1 r2
        del: CreateProviderVersion.simps CreateProviderVersionPlatform.simps)
qed




section \<open>The upload\<close>






end
